theory Spec2Isabelle
  imports Main "HOL-Library.Char_ord" "HOL-Library.List_Lexorder"
begin

section \<open>Strings and regular expressions of the host language\<close>

text \<open>
  Strings are lists of code units; the model covers the code units U+0000 to U+00FF
  (one \<^typ>\<open>char\<close> each). The regular expressions of \<^verbatim>\<open>semantic-version.ts\<close> are kept as
  terms of the datatype below, and a backtracking matcher gives them the meaning the
  host's \<^verbatim>\<open>RegExp\<close> gives them.
\<close>

datatype regex =
    Bol                          \<comment> \<open>\<^verbatim>\<open>^\<close>\<close>
  | Eol                          \<comment> \<open>\<^verbatim>\<open>$\<close>\<close>
  | Lit string                   \<comment> \<open>a literal run of characters\<close>
  | Cls "(char \<times> char) list"    \<comment> \<open>a character class, as its ranges\<close>
  | Seq regex regex
  | Alt regex regex
  | Opt regex                    \<comment> \<open>\<^verbatim>\<open>r?\<close>\<close>
  | Star regex                   \<comment> \<open>\<^verbatim>\<open>r*\<close>\<close>
  | Grp string regex             \<comment> \<open>\<^verbatim>\<open>(?<name>r)\<close>\<close>

abbreviation Plus :: "regex \<Rightarrow> regex" where
  "Plus r \<equiv> Seq r (Star r)"

text \<open>Case folding of the \<^verbatim>\<open>i\<close> flag (without the \<^verbatim>\<open>u\<close> flag): a code unit is
  compared through its upper-case form; below U+0100 that moves a-z and the Latin-1
  lower-case letters down by 32.\<close>

definition is_lower :: "nat \<Rightarrow> bool" where
  "is_lower n = ((97 \<le> n \<and> n \<le> 122) \<or> (224 \<le> n \<and> n \<le> 254 \<and> n \<noteq> 247))"

definition is_upper :: "nat \<Rightarrow> bool" where
  "is_upper n = ((65 \<le> n \<and> n \<le> 90) \<or> (192 \<le> n \<and> n \<le> 222 \<and> n \<noteq> 215))"

definition canonicalize :: "bool \<Rightarrow> char \<Rightarrow> nat" where
  "canonicalize ic c =
     (let n = of_char c in if ic \<and> is_lower n then n - 32 else n)"

definition variants :: "bool \<Rightarrow> char \<Rightarrow> nat list" where
  "variants ic c =
     (let n = of_char c in
      n # (if ic \<and> is_lower n then [n - 32] else [])
        @ (if ic \<and> is_upper n then [n + 32] else []))"

definition in_class :: "(char \<times> char) list \<Rightarrow> nat \<Rightarrow> bool" where
  "in_class rs n = list_ex (\<lambda>(lo, hi). of_char lo \<le> n \<and> n \<le> of_char hi) rs"

definition class_matches :: "bool \<Rightarrow> (char \<times> char) list \<Rightarrow> char \<Rightarrow> bool" where
  "class_matches ic rs c = list_ex (in_class rs) (variants ic c)"

definition lit_matches :: "bool \<Rightarrow> string \<Rightarrow> string \<Rightarrow> bool" where
  "lit_matches ic l s =
     (length l \<le> length s \<and>
      map (canonicalize ic) (take (length l) s) = map (canonicalize ic) l)"

text \<open>\<open>rx ic r b s\<close>: the inputs left over after each way \<open>r\<close> can match at the front of
  \<open>s\<close>, in the order backtracking tries them (so the head is what the host's matcher
  settles on). \<open>ic\<close> is the \<^verbatim>\<open>i\<close> flag; \<open>b\<close> says that \<open>s\<close> is the whole input, which is
  what \<^verbatim>\<open>^\<close> tests. An iteration of \<^verbatim>\<open>*\<close> that consumes nothing is dropped, as the host
  does.\<close>

function rx :: "bool \<Rightarrow> regex \<Rightarrow> bool \<Rightarrow> string \<Rightarrow> string list" where
  "rx ic Bol b s = (if b then [s] else [])"
| "rx ic Eol b s = (if s = [] then [s] else [])"
| "rx ic (Lit l) b s = (if lit_matches ic l s then [drop (length l) s] else [])"
| "rx ic (Cls rs) b s =
     (case s of [] \<Rightarrow> [] | c # cs \<Rightarrow> if class_matches ic rs c then [cs] else [])"
| "rx ic (Seq r1 r2) b s =
     concat (map (\<lambda>s'. rx ic r2 (b \<and> length s' = length s) s') (rx ic r1 b s))"
| "rx ic (Alt r1 r2) b s = rx ic r1 b s @ rx ic r2 b s"
| "rx ic (Opt r) b s = rx ic r b s @ [s]"
| "rx ic (Star r) b s =
     concat (map (\<lambda>s'. rx ic (Star r) False s')
                 (filter (\<lambda>s'. length s' < length s) (rx ic r b s))) @ [s]"
| "rx ic (Grp n r) b s = rx ic r b s"
  by pat_completeness auto
termination
  by (relation "measures [\<lambda>(ic, r, b, s). size r, \<lambda>(ic, r, b, s). length s]") auto

text \<open>\<^verbatim>\<open>String.prototype.match\<close> with a regular expression that has the \<^verbatim>\<open>g\<close> flag:
  the search starts at index 0, every match found is collected as a string and the search
  resumes where the match ended (one code unit further after an empty match); the result
  is \<^verbatim>\<open>null\<close> when nothing matched, else the array of the matched strings. That array
  has no \<^verbatim>\<open>groups\<close> property.\<close>

function matches_g :: "bool \<Rightarrow> regex \<Rightarrow> bool \<Rightarrow> string \<Rightarrow> string list" where
  "matches_g ic r b s =
     (case rx ic r b s of
        [] \<Rightarrow> (case s of [] \<Rightarrow> [] | c # cs \<Rightarrow> matches_g ic r False cs)
      | s' # _ \<Rightarrow>
          take (length s - length s') s #
            (if length s' < length s then matches_g ic r False s'
             else (case s of [] \<Rightarrow> [] | c # cs \<Rightarrow> matches_g ic r False cs)))"
  by pat_completeness auto
termination
  by (relation "measure (\<lambda>(ic, r, b, s). length s)") auto

definition match_g :: "bool \<Rightarrow> regex \<Rightarrow> string \<Rightarrow> string list option" where
  "match_g ic r s = (case matches_g ic r True s of [] \<Rightarrow> None | ms \<Rightarrow> Some ms)"

text \<open>\<^verbatim>\<open>String.prototype.split\<close> on a one-character separator, \<^verbatim>\<open>trim\<close> (the white
  space below U+0100) and the decimal form of a non-negative integer.\<close>

fun split :: "char \<Rightarrow> string \<Rightarrow> string list" where
  "split d [] = [[]]"
| "split d (c # cs) =
     (if c = d then [] # split d cs
      else (case split d cs of [] \<Rightarrow> [[c]] | p # ps \<Rightarrow> (c # p) # ps))"

definition is_space :: "char \<Rightarrow> bool" where
  "is_space c = (of_char c \<in> {9, 10, 11, 12, 13, 32, 160 :: nat})"

definition trim :: "string \<Rightarrow> string" where
  "trim s = rev (dropWhile is_space (rev (dropWhile is_space s)))"

definition digit :: "nat \<Rightarrow> char" where
  "digit d = (''0123456789'' ! d)"

function decimal :: "nat \<Rightarrow> string" where
  "decimal n = (if n < 10 then [digit n] else decimal (n div 10) @ [digit (n mod 10)])"
  by pat_completeness auto
termination
  by (relation "measure id") auto

definition numberToString :: "int \<Rightarrow> string" where
  "numberToString i = (if i < 0 then CHR ''-'' # decimal (nat (- i)) else decimal (nat i))"

subsection \<open>The regular expressions of the source\<close>

definition digits :: regex where
  "digits = Plus (Cls [(CHR ''0'', CHR ''9'')])"

text \<open>\<^verbatim>\<open>/^(?:(?<Label>v|(?:ver)|(?:version)) ?)?(?<Major>\d+)\.(?<Minor>\d+)\.(?<Patch>\d+)(?:\.(?<Hotfix>\d+))?(?:\.(?<Prerelease>[1-9a-z][0-9a-z.]*))?(?:\+(?<Build>(?:[0-9a-z.-]+)*))?$/gi\<close>\<close>

definition semanticVersionRegex :: regex where
  "semanticVersionRegex =
     Seq Bol
    (Seq (Opt (Seq (Grp ''Label'' (Alt (Lit ''v'') (Alt (Lit ''ver'') (Lit ''version''))))
                   (Opt (Lit '' ''))))
    (Seq (Grp ''Major'' digits)
    (Seq (Lit ''.'')
    (Seq (Grp ''Minor'' digits)
    (Seq (Lit ''.'')
    (Seq (Grp ''Patch'' digits)
    (Seq (Opt (Seq (Lit ''.'') (Grp ''Hotfix'' digits)))
    (Seq (Opt (Seq (Lit ''.'')
                   (Grp ''Prerelease''
                      (Seq (Cls [(CHR ''1'', CHR ''9''), (CHR ''a'', CHR ''z'')])
                           (Star (Cls [(CHR ''0'', CHR ''9''), (CHR ''a'', CHR ''z''),
                                       (CHR ''.'', CHR ''.'')]))))))
    (Seq (Opt (Seq (Lit ''+'')
                   (Grp ''Build''
                      (Star (Plus (Cls [(CHR ''0'', CHR ''9''), (CHR ''a'', CHR ''z''),
                                        (CHR ''.'', CHR ''.''), (CHR ''-'', CHR ''-'')]))))))
         Eol)))))))))"

text \<open>\<^verbatim>\<open>/^[1-9a-z-][0-9a-z-]*$/gi\<close> and \<^verbatim>\<open>/^[0-9a-z-]+$/gi\<close>\<close>

definition alphaNumericWithPrefixRuleRegex :: regex where
  "alphaNumericWithPrefixRuleRegex =
     Seq Bol
    (Seq (Cls [(CHR ''1'', CHR ''9''), (CHR ''a'', CHR ''z''), (CHR ''-'', CHR ''-'')])
    (Seq (Star (Cls [(CHR ''0'', CHR ''9''), (CHR ''a'', CHR ''z''), (CHR ''-'', CHR ''-'')]))
         Eol))"

definition alphaNumericRegex :: regex where
  "alphaNumericRegex =
     Seq Bol
    (Seq (Plus (Cls [(CHR ''0'', CHR ''9''), (CHR ''a'', CHR ''z''), (CHR ''-'', CHR ''-'')]))
         Eol)"

text \<open>The pattern of \<^verbatim>\<open>LabelSchema\<close>, \<^verbatim>\<open>/^v|(?:ver)|(?:version)?$/gi\<close>: alternation binds
  weakest, so the three alternatives are \<^verbatim>\<open>^v\<close>, \<^verbatim>\<open>ver\<close> and \<^verbatim>\<open>(?:version)?$\<close>.\<close>

definition labelRegex :: regex where
  "labelRegex =
     Alt (Seq Bol (Lit ''v''))
    (Alt (Lit ''ver'')
         (Seq (Opt (Lit ''version'')) Eol))"

section \<open>Values, policy settings and the Version class\<close>

text \<open>A policy setting is \<^verbatim>\<open>"required" | "optional" | "forbidden"\<close> or a list of rules; a
  rule is a string, a number or a \<^verbatim>\<open>RegExp\<close>. A \<^verbatim>\<open>RegExp\<close> supplied by a caller is kept as
  the predicate its \<^verbatim>\<open>test\<close> method computes. \<open>RNonInt\<close> stands for the numbers that are
  not integers (fractions and the infinities).\<close>

datatype rule = RStr string | RNum int | RNonInt | RRegExp "string \<Rightarrow> bool"

datatype setting = Required | Optional | Forbidden | Rules "rule list"

datatype key = Branch | Label | Hotfix | Prerelease | Build

type_synonym SemanticVersionComplianceSettings = "key \<Rightarrow> setting"

text \<open>The instance fields of \<^verbatim>\<open>class SemanticVersion\<close> (\<^verbatim>\<open>_branch\<close>, ...,
  \<^verbatim>\<open>_complianceSettings\<close>). The numbers a Version holds have passed
  \<^verbatim>\<open>z.number().int().nonnegative().safe()\<close>, so they are integers. The static
  \<^verbatim>\<open>SemanticVersion._complianceSettings\<close> is \<^verbatim>\<open>undefined\<close> until it is set, hence the
  option.\<close>

record SemanticVersion =
  priv_complianceSettings :: "SemanticVersionComplianceSettings option"
  priv_branch :: "string option"
  priv_label :: "string option"
  priv_major :: int
  priv_minor :: int
  priv_patch :: int
  priv_hotfix :: "int option"
  priv_prerelease :: "string option"
  priv_build :: "string option"

text \<open>The values a caller can pass. \<open>JNum i\<close> is the number with the integer value
  \<open>i\<close>, \<open>JNonInt\<close> any other number but \<^verbatim>\<open>NaN\<close>; \<open>JObj\<close> is a plain object, as its
  properties; \<open>JInstance\<close> is an instance of the class; \<open>JFunction\<close> stands for the
  values whose \<^verbatim>\<open>typeof\<close> is neither \<^verbatim>\<open>"object"\<close> nor one of the primitive types
  above it.\<close>

datatype jsval =
    JUndefined
  | JNull
  | JBool bool
  | JNum int
  | JNonInt
  | JNaN
  | JStr string
  | JArr "jsval list"
  | JObj "(string \<times> jsval) list"
  | JRegExp "string \<Rightarrow> bool"
  | JInstance SemanticVersion
  | JFunction

fun optStr :: "string option \<Rightarrow> jsval" where
  "optStr None = JUndefined"
| "optStr (Some s) = JStr s"

fun optNum :: "int option \<Rightarrow> jsval" where
  "optNum None = JUndefined"
| "optNum (Some n) = JNum n"

fun jsval_of_rule :: "rule \<Rightarrow> jsval" where
  "jsval_of_rule (RStr s) = JStr s"
| "jsval_of_rule (RNum n) = JNum n"
| "jsval_of_rule RNonInt = JNonInt"
| "jsval_of_rule (RRegExp p) = JRegExp p"

fun jsval_of_setting :: "setting \<Rightarrow> jsval" where
  "jsval_of_setting Required = JStr ''required''"
| "jsval_of_setting Optional = JStr ''optional''"
| "jsval_of_setting Forbidden = JStr ''forbidden''"
| "jsval_of_setting (Rules rs) = JArr (map jsval_of_rule rs)"

definition jsval_of_settings :: "SemanticVersionComplianceSettings \<Rightarrow> jsval" where
  "jsval_of_settings cs =
     JObj [(''Branch'', jsval_of_setting (cs Branch)),
           (''Label'', jsval_of_setting (cs Label)),
           (''Hotfix'', jsval_of_setting (cs Hotfix)),
           (''Prerelease'', jsval_of_setting (cs Prerelease)),
           (''Build'', jsval_of_setting (cs Build))]"

fun optSettings :: "SemanticVersionComplianceSettings option \<Rightarrow> jsval" where
  "optSettings None = JUndefined"
| "optSettings (Some cs) = jsval_of_settings cs"

text \<open>The own enumerable properties of an instance, which are what \<^verbatim>\<open>{ ...this }\<close>
  copies: the fields the constructor assigns, under their own names.\<close>

definition ownProperties :: "SemanticVersion \<Rightarrow> (string \<times> jsval) list" where
  "ownProperties v =
     [(''_complianceSettings'', optSettings (priv_complianceSettings v)),
      (''_branch'', optStr (priv_branch v)),
      (''_label'', optStr (priv_label v)),
      (''_major'', JNum (priv_major v)),
      (''_minor'', JNum (priv_minor v)),
      (''_patch'', JNum (priv_patch v)),
      (''_hotfix'', optNum (priv_hotfix v)),
      (''_prerelease'', optStr (priv_prerelease v)),
      (''_build'', optStr (priv_build v))]"

text \<open>The accessors of the class (\<^verbatim>\<open>get Branch()\<close> and the others), which an instance
  inherits from the prototype.\<close>

definition accessors :: "SemanticVersion \<Rightarrow> (string \<times> jsval) list" where
  "accessors v =
     [(''ComplianceSettings'', optSettings (priv_complianceSettings v)),
      (''Branch'', optStr (priv_branch v)),
      (''Label'', optStr (priv_label v)),
      (''Major'', JNum (priv_major v)),
      (''Minor'', JNum (priv_minor v)),
      (''Patch'', JNum (priv_patch v)),
      (''Hotfix'', optNum (priv_hotfix v)),
      (''Prerelease'', optStr (priv_prerelease v)),
      (''Build'', optStr (priv_build v))]"

definition lookup :: "(string \<times> jsval) list \<Rightarrow> string \<Rightarrow> jsval" where
  "lookup ps k = (case map_of ps k of None \<Rightarrow> JUndefined | Some x \<Rightarrow> x)"

text \<open>Reading property \<open>k\<close> of a value that the schema has accepted as an object.\<close>

fun getProp :: "jsval \<Rightarrow> string \<Rightarrow> jsval" where
  "getProp (JObj ps) k = lookup ps k"
| "getProp (JInstance v) k = lookup (ownProperties v @ accessors v) k"
| "getProp _ k = JUndefined"

text \<open>An object literal \<^verbatim>\<open>{ ...o, k: x }\<close> sets \<open>k\<close> after the copied properties.\<close>

fun setProp :: "string \<Rightarrow> jsval \<Rightarrow> (string \<times> jsval) list \<Rightarrow> (string \<times> jsval) list" where
  "setProp k x [] = [(k, x)]"
| "setProp k x ((k', x') # ps) =
     (if k = k' then (k, x) # ps else (k', x') # setProp k x ps)"

text \<open>Truthiness, \<^verbatim>\<open>typeof\<close> and \<^verbatim>\<open>toString()\<close> of a value.\<close>

fun truthy :: "jsval \<Rightarrow> bool" where
  "truthy JUndefined = False"
| "truthy JNull = False"
| "truthy (JBool b) = b"
| "truthy (JNum n) = (n \<noteq> 0)"
| "truthy JNaN = False"
| "truthy (JStr s) = (s \<noteq> [])"
| "truthy _ = True"

fun typeof :: "jsval \<Rightarrow> string" where
  "typeof JUndefined = ''undefined''"
| "typeof (JBool b) = ''boolean''"
| "typeof (JNum n) = ''number''"
| "typeof JNonInt = ''number''"
| "typeof JNaN = ''number''"
| "typeof (JStr s) = ''string''"
| "typeof JFunction = ''function''"
| "typeof _ = ''object''"

fun isUndefined :: "jsval \<Rightarrow> bool" where
  "isUndefined JUndefined = True"
| "isUndefined _ = False"

fun asString :: "jsval \<Rightarrow> string" where
  "asString (JStr s) = s"
| "asString (JNum n) = numberToString n"
| "asString _ = []"

subsection \<open>The schemas\<close>

text \<open>Each schema is modelled by its \<^verbatim>\<open>safeParse\<close>: \<open>None\<close> is a failed parse, \<open>Some\<close>
  carries the parsed data (for an \<^verbatim>\<open>optional()\<close> schema an option again, \<open>None\<close> being
  \<^verbatim>\<open>undefined\<close>).\<close>

fun LabelSchema :: "jsval \<Rightarrow> string option option" where
  "LabelSchema JUndefined = Some None"
| "LabelSchema (JStr k) =
     (case match_g True labelRegex k of None \<Rightarrow> None | Some m \<Rightarrow> Some (Some k))"
| "LabelSchema _ = None"

definition MAX_SAFE_INTEGER :: int where
  "MAX_SAFE_INTEGER = 2 ^ 53 - 1"

text \<open>\<^verbatim>\<open>z.number().int().nonnegative().safe().finite()\<close>\<close>

fun numberSchema :: "jsval \<Rightarrow> int option" where
  "numberSchema (JNum n) = (if 0 \<le> n \<and> n \<le> MAX_SAFE_INTEGER then Some n else None)"
| "numberSchema _ = None"

definition MajorVersionSchema :: "jsval \<Rightarrow> int option" where
  "MajorVersionSchema = numberSchema"

definition MinorVersionSchema :: "jsval \<Rightarrow> int option" where
  "MinorVersionSchema = numberSchema"

definition PatchVersionSchema :: "jsval \<Rightarrow> int option" where
  "PatchVersionSchema = numberSchema"

fun HotfixVersionSchema :: "jsval \<Rightarrow> int option option" where
  "HotfixVersionSchema JUndefined = Some None"
| "HotfixVersionSchema x = map_option Some (numberSchema x)"

fun PrereleaseVersionSchema :: "jsval \<Rightarrow> string option option" where
  "PrereleaseVersionSchema JUndefined = Some None"
| "PrereleaseVersionSchema (JStr k) =
     (if list_all (\<lambda>piece. match_g True alphaNumericWithPrefixRuleRegex piece \<noteq> None)
                  (split (CHR ''.'') k)
      then Some (Some k) else None)"
| "PrereleaseVersionSchema _ = None"

fun BuildVersionSchema :: "jsval \<Rightarrow> string option option" where
  "BuildVersionSchema JUndefined = Some None"
| "BuildVersionSchema (JStr k) =
     (if list_all (\<lambda>piece. match_g True alphaNumericRegex piece \<noteq> None)
                  (split (CHR ''.'') k)
      then Some (Some k) else None)"
| "BuildVersionSchema _ = None"

fun BranchSchema :: "jsval \<Rightarrow> string option option" where
  "BranchSchema JUndefined = Some None"
| "BranchSchema (JStr s) = (if 1 \<le> length s then Some (Some s) else None)"
| "BranchSchema _ = None"

text \<open>The elements of a rule list: \<^verbatim>\<open>z.union([z.string(), z.instanceof(RegExp)])\<close>, and
  for Hotfix \<^verbatim>\<open>z.union([z.number(), z.instanceof(RegExp)])\<close>.\<close>

fun stringRule :: "jsval \<Rightarrow> rule option" where
  "stringRule (JStr s) = Some (RStr s)"
| "stringRule (JRegExp p) = Some (RRegExp p)"
| "stringRule _ = None"

fun numberRule :: "jsval \<Rightarrow> rule option" where
  "numberRule (JNum n) = Some (RNum n)"
| "numberRule JNonInt = Some RNonInt"
| "numberRule (JRegExp p) = Some (RRegExp p)"
| "numberRule _ = None"

fun ruleList :: "(jsval \<Rightarrow> rule option) \<Rightarrow> jsval list \<Rightarrow> rule list option" where
  "ruleList elem [] = Some []"
| "ruleList elem (x # xs) =
     (case elem x of None \<Rightarrow> None
      | Some r \<Rightarrow> (case ruleList elem xs of None \<Rightarrow> None | Some rs \<Rightarrow> Some (r # rs)))"

text \<open>\<^verbatim>\<open>z.union([z.literal("required"), z.literal("optional"), z.literal("forbidden"),
  z.array(...)]).default("optional")\<close>\<close>

fun settingSchema :: "(jsval \<Rightarrow> rule option) \<Rightarrow> jsval \<Rightarrow> setting option" where
  "settingSchema elem JUndefined = Some Optional"
| "settingSchema elem (JStr s) =
     (if s = ''required'' then Some Required
      else if s = ''optional'' then Some Optional
      else if s = ''forbidden'' then Some Forbidden
      else None)"
| "settingSchema elem (JArr xs) = map_option Rules (ruleList elem xs)"
| "settingSchema elem _ = None"

definition keyName :: "key \<Rightarrow> string" where
  "keyName k = (case k of Branch \<Rightarrow> ''Branch'' | Label \<Rightarrow> ''Label'' | Hotfix \<Rightarrow> ''Hotfix''
                | Prerelease \<Rightarrow> ''Prerelease'' | Build \<Rightarrow> ''Build'')"

text \<open>\<^verbatim>\<open>z.object\<close> accepts the values whose parsed type is \<^verbatim>\<open>object\<close>: not an array,
  not \<^verbatim>\<open>null\<close>, not a function.\<close>

fun isObject :: "jsval \<Rightarrow> bool" where
  "isObject (JObj ps) = True"
| "isObject (JRegExp p) = True"
| "isObject (JInstance v) = True"
| "isObject _ = False"

definition settingsObjectSchema :: "jsval \<Rightarrow> SemanticVersionComplianceSettings option" where
  "settingsObjectSchema x =
     (if isObject x then
        (case settingSchema stringRule (getProp x ''Branch'') of None \<Rightarrow> None | Some b \<Rightarrow>
        (case settingSchema stringRule (getProp x ''Label'') of None \<Rightarrow> None | Some l \<Rightarrow>
        (case settingSchema numberRule (getProp x ''Hotfix'') of None \<Rightarrow> None | Some h \<Rightarrow>
        (case settingSchema stringRule (getProp x ''Prerelease'') of None \<Rightarrow> None | Some p \<Rightarrow>
        (case settingSchema stringRule (getProp x ''Build'') of None \<Rightarrow> None | Some u \<Rightarrow>
           Some (\<lambda>k. case k of Branch \<Rightarrow> b | Label \<Rightarrow> l | Hotfix \<Rightarrow> h
                        | Prerelease \<Rightarrow> p | Build \<Rightarrow> u))))))
      else None)"

fun complianceSettingsSchema :: "jsval \<Rightarrow> SemanticVersionComplianceSettings option option" where
  "complianceSettingsSchema JUndefined = Some None"
| "complianceSettingsSchema x = map_option Some (settingsObjectSchema x)"

text \<open>\<^verbatim>\<open>SemanticVersionSchema\<close>: unknown keys are dropped; a failed parse reports the
  keys that were refused, in the order of the schema (the empty name stands for the
  input itself, when it is not an object).\<close>

record SemanticVersionStruct =
  branch :: "string option"
  label :: "string option"
  major :: int
  minor :: int
  patch :: int
  hotfix :: "int option"
  prerelease :: "string option"
  build :: "string option"
  complianceSettings :: "SemanticVersionComplianceSettings option"

definition issue :: "string \<Rightarrow> 'a option \<Rightarrow> string list" where
  "issue k r = (case r of None \<Rightarrow> [k] | Some y \<Rightarrow> [])"

definition SemanticVersionSchema :: "jsval \<Rightarrow> string list + SemanticVersionStruct" where
  "SemanticVersionSchema x =
     (if \<not> isObject x then Inl [[]]
      else
        let b = BranchSchema (getProp x ''branch'');
            l = LabelSchema (getProp x ''label'');
            ma = MajorVersionSchema (getProp x ''major'');
            mi = MinorVersionSchema (getProp x ''minor'');
            pa = PatchVersionSchema (getProp x ''patch'');
            h = HotfixVersionSchema (getProp x ''hotfix'');
            pr = PrereleaseVersionSchema (getProp x ''prerelease'');
            bu = BuildVersionSchema (getProp x ''build'');
            cs = complianceSettingsSchema (getProp x ''complianceSettings'')
        in (case (b, l, ma, mi, pa, h, pr, bu, cs) of
              (Some b', Some l', Some ma', Some mi', Some pa', Some h', Some pr', Some bu',
               Some cs') \<Rightarrow>
                Inr \<lparr>branch = b', label = l', major = ma', minor = mi', patch = pa',
                     hotfix = h', prerelease = pr', build = bu', complianceSettings = cs'\<rparr>
            | _ \<Rightarrow>
                Inl (issue ''branch'' b @ issue ''label'' l @ issue ''major'' ma @
                     issue ''minor'' mi @ issue ''patch'' pa @ issue ''hotfix'' h @
                     issue ''prerelease'' pr @ issue ''build'' bu @
                     issue ''complianceSettings'' cs)))"

definition jsval_of_struct :: "SemanticVersionStruct \<Rightarrow> jsval" where
  "jsval_of_struct st =
     JObj [(''branch'', optStr (branch st)),
           (''label'', optStr (label st)),
           (''major'', JNum (major st)),
           (''minor'', JNum (minor st)),
           (''patch'', JNum (patch st)),
           (''hotfix'', optNum (hotfix st)),
           (''prerelease'', optStr (prerelease st)),
           (''build'', optStr (build st)),
           (''complianceSettings'', optSettings (complianceSettings st))]"

subsection \<open>The constructor\<close>

text \<open>What the code throws: \<open>Error m\<close> is \<^verbatim>\<open>new Error(m)\<close> with a fixed message,
  \<open>ValidationError ks\<close> the \<^verbatim>\<open>Error\<close> built from the issues of a failed parse (\<open>ks\<close> names
  the refused keys), \<open>TypeError\<close> the host's error on reading a property of
  \<^verbatim>\<open>undefined\<close>.\<close>

datatype exn = Error string | ValidationError "string list" | TypeError

text \<open>The object branch of the constructor (lines 558 to 577). \<open>d\<close> is the static
  \<^verbatim>\<open>SemanticVersion._complianceSettings\<close>. For an instance the code first copies the
  instance's settings (line 560); line 573 assigns the field again whenever the parse
  succeeds.\<close>

definition fromObject ::
  "SemanticVersionComplianceSettings option \<Rightarrow> jsval \<Rightarrow> exn + SemanticVersion" where
  "fromObject d initializer =
     (case SemanticVersionSchema initializer of
        Inr parsed \<Rightarrow>
          Inr \<lparr>priv_complianceSettings =
                 (case complianceSettings parsed of Some cs \<Rightarrow> Some cs | None \<Rightarrow> d),
               priv_branch = branch parsed, priv_label = label parsed,
               priv_major = major parsed, priv_minor = minor parsed,
               priv_patch = patch parsed, priv_hotfix = hotfix parsed,
               priv_prerelease = prerelease parsed, priv_build = build parsed\<rparr>
      | Inl issues \<Rightarrow> Inl (ValidationError issues))"

text \<open>The string branch (lines 538 to 557): \<^verbatim>\<open>match.groups\<close> is read off the array that
  \<^verbatim>\<open>match\<close> returns for a \<^verbatim>\<open>g\<close> pattern, which has no such property, so the schema is
  given \<^verbatim>\<open>undefined\<close>.\<close>

definition fromString ::
  "SemanticVersionComplianceSettings option \<Rightarrow> string \<Rightarrow> exn + SemanticVersion" where
  "fromString d initializer =
     (case match_g True semanticVersionRegex initializer of
        Some m \<Rightarrow>
          (let groups = JUndefined in
           case SemanticVersionSchema groups of
             Inr parsed \<Rightarrow>
               Inr \<lparr>priv_complianceSettings = d,
                    priv_branch = branch parsed, priv_label = label parsed,
                    priv_major = major parsed, priv_minor = minor parsed,
                    priv_patch = patch parsed, priv_hotfix = hotfix parsed,
                    priv_prerelease = prerelease parsed, priv_build = build parsed\<rparr>
           | Inl issues \<Rightarrow> Inl (ValidationError issues))
      | None \<Rightarrow> Inl (Error ''Invalid Semantic Version String''))"

text \<open>\<^verbatim>\<open>new SemanticVersion(initializer)\<close>. The first two branches need a truthy
  initializer, so the empty string reaches the last \<^verbatim>\<open>else\<close>, and so do the values
  that are neither strings nor objects.\<close>

fun construct ::
  "SemanticVersionComplianceSettings option \<Rightarrow> jsval \<Rightarrow> exn + SemanticVersion" where
  "construct d (JStr s) =
     (if s \<noteq> [] then fromString d s
      else Inl (Error ''Invalid Semantic Version Initializer''))"
| "construct d (JObj ps) = fromObject d (JObj ps)"
| "construct d (JArr xs) = fromObject d (JArr xs)"
| "construct d (JRegExp p) = fromObject d (JRegExp p)"
| "construct d (JInstance v) = fromObject d (JInstance v)"
| "construct d JNull =
     Inr \<lparr>priv_complianceSettings = d, priv_branch = None, priv_label = None,
          priv_major = 0, priv_minor = 0, priv_patch = 1, priv_hotfix = None,
          priv_prerelease = None, priv_build = None\<rparr>"
| "construct d JUndefined =
     Inr \<lparr>priv_complianceSettings = d, priv_branch = None, priv_label = None,
          priv_major = 0, priv_minor = 0, priv_patch = 1, priv_hotfix = None,
          priv_prerelease = None, priv_build = None\<rparr>"
| "construct d _ = Inl (Error ''Invalid Semantic Version Initializer'')"

subsection \<open>Methods\<close>

text \<open>\<^verbatim>\<open>{ ...this, k1: x1, ..., kn: xn }\<close>: the own properties of \<^verbatim>\<open>this\<close>, then the
  listed keys. Every method below passes such an object to the constructor; \<open>d\<close> is the
  static default at the time of the call.\<close>

definition spreadThis :: "SemanticVersion \<Rightarrow> (string \<times> jsval) list \<Rightarrow> jsval" where
  "spreadThis v overrides = JObj (foldl (\<lambda>ps (k, x). setProp k x ps) (ownProperties v) overrides)"

definition changeBranch ::
  "SemanticVersionComplianceSettings option \<Rightarrow> SemanticVersion \<Rightarrow> jsval \<Rightarrow> exn + SemanticVersion" where
  "changeBranch d v x = construct d (spreadThis v [(''branch'', x)])"

definition changeLabel ::
  "SemanticVersionComplianceSettings option \<Rightarrow> SemanticVersion \<Rightarrow> jsval \<Rightarrow> exn + SemanticVersion" where
  "changeLabel d v x = construct d (spreadThis v [(''label'', x)])"

definition changeMajor ::
  "SemanticVersionComplianceSettings option \<Rightarrow> SemanticVersion \<Rightarrow> jsval \<Rightarrow> exn + SemanticVersion" where
  "changeMajor d v x = construct d (spreadThis v [(''major'', x)])"

definition changeMinor ::
  "SemanticVersionComplianceSettings option \<Rightarrow> SemanticVersion \<Rightarrow> jsval \<Rightarrow> exn + SemanticVersion" where
  "changeMinor d v x = construct d (spreadThis v [(''minor'', x)])"

definition changePatch ::
  "SemanticVersionComplianceSettings option \<Rightarrow> SemanticVersion \<Rightarrow> jsval \<Rightarrow> exn + SemanticVersion" where
  "changePatch d v x = construct d (spreadThis v [(''patch'', x)])"

definition changeHotfix ::
  "SemanticVersionComplianceSettings option \<Rightarrow> SemanticVersion \<Rightarrow> jsval \<Rightarrow> exn + SemanticVersion" where
  "changeHotfix d v x = construct d (spreadThis v [(''hotfix'', x)])"

definition changePrerelease ::
  "SemanticVersionComplianceSettings option \<Rightarrow> SemanticVersion \<Rightarrow> jsval \<Rightarrow> exn + SemanticVersion" where
  "changePrerelease d v x = construct d (spreadThis v [(''prerelease'', x)])"

definition changeBuild ::
  "SemanticVersionComplianceSettings option \<Rightarrow> SemanticVersion \<Rightarrow> jsval \<Rightarrow> exn + SemanticVersion" where
  "changeBuild d v x = construct d (spreadThis v [(''build'', x)])"

text \<open>The increments. The numbers of a Version are safe integers, for which \<^verbatim>\<open>+ 1\<close> is
  exact.\<close>

definition incrementMajor ::
  "SemanticVersionComplianceSettings option \<Rightarrow> SemanticVersion \<Rightarrow> exn + SemanticVersion" where
  "incrementMajor d v =
     construct d (spreadThis v
       [(''major'', JNum (priv_major v + 1)), (''minor'', JNum 0), (''patch'', JNum 0),
        (''hotfix'', JUndefined), (''prerelease'', JUndefined), (''build'', JUndefined)])"

definition incrementMinor ::
  "SemanticVersionComplianceSettings option \<Rightarrow> SemanticVersion \<Rightarrow> exn + SemanticVersion" where
  "incrementMinor d v =
     construct d (spreadThis v
       [(''minor'', JNum (priv_minor v + 1)), (''patch'', JNum 0),
        (''hotfix'', JUndefined), (''prerelease'', JUndefined), (''build'', JUndefined)])"

definition incrementPatch ::
  "SemanticVersionComplianceSettings option \<Rightarrow> SemanticVersion \<Rightarrow> exn + SemanticVersion" where
  "incrementPatch d v =
     construct d (spreadThis v
       [(''patch'', JNum (priv_patch v + 1)),
        (''hotfix'', JUndefined), (''prerelease'', JUndefined), (''build'', JUndefined)])"

definition incrementHotfix ::
  "SemanticVersionComplianceSettings option \<Rightarrow> SemanticVersion \<Rightarrow> exn + SemanticVersion" where
  "incrementHotfix d v =
     construct d (spreadThis v
       [(''hotfix'', JNum ((case priv_hotfix v of None \<Rightarrow> 0 | Some h \<Rightarrow> h) + 1)),
        (''prerelease'', JUndefined), (''build'', JUndefined)])"

text \<open>\<^verbatim>\<open>static tryParse(input)\<close>: \<open>Inr None\<close> is the result \<^verbatim>\<open>undefined\<close>.\<close>

definition tryParse ::
  "SemanticVersionComplianceSettings option \<Rightarrow> jsval \<Rightarrow> exn + SemanticVersion option" where
  "tryParse d input =
     (let obj =
        (case input of
           JStr s \<Rightarrow>
             (case match_g True semanticVersionRegex s of
                None \<Rightarrow> JUndefined
              | Some m \<Rightarrow> JUndefined)
         | JArr xs \<Rightarrow> input
         | JObj ps \<Rightarrow> input
         | JRegExp p \<Rightarrow> input
         | JInstance v \<Rightarrow> input
         | _ \<Rightarrow> JUndefined)
      in if truthy obj then
           (case SemanticVersionSchema obj of
              Inr struct \<Rightarrow>
                (case construct d (jsval_of_struct struct) of
                   Inl e \<Rightarrow> Inl e
                 | Inr v \<Rightarrow> Inr (Some v))
            | Inl issues \<Rightarrow> Inr None)
         else Inr None)"

definition toJSON :: "SemanticVersion \<Rightarrow> SemanticVersionStruct" where
  "toJSON v =
     \<lparr>branch = priv_branch v, label = priv_label v, major = priv_major v,
      minor = priv_minor v, patch = priv_patch v, hotfix = priv_hotfix v,
      prerelease = priv_prerelease v, build = priv_build v,
      complianceSettings = priv_complianceSettings v\<rparr>"

definition toString :: "SemanticVersion \<Rightarrow> string" where
  "toString v =
     (case priv_branch v of Some b \<Rightarrow> b @ '' '' | None \<Rightarrow> []) @
     (case priv_label v of Some l \<Rightarrow> l @ '' '' | None \<Rightarrow> []) @
     numberToString (priv_major v) @ ''.'' @ numberToString (priv_minor v) @ ''.'' @
     numberToString (priv_patch v) @
     (case priv_hotfix v of Some h \<Rightarrow> ''.'' @ numberToString h | None \<Rightarrow> []) @
     (case priv_prerelease v of Some p \<Rightarrow> ''-'' @ p | None \<Rightarrow> []) @
     (case priv_build v of Some b \<Rightarrow> ''+'' @ b | None \<Rightarrow> [])"

subsection \<open>Compliance\<close>

text \<open>\<^verbatim>\<open>struct[key]\<close>: the accessor named by the key.\<close>

definition fieldOf :: "SemanticVersion \<Rightarrow> key \<Rightarrow> jsval" where
  "fieldOf struct k =
     (case k of Branch \<Rightarrow> optStr (priv_branch struct)
      | Label \<Rightarrow> optStr (priv_label struct)
      | Hotfix \<Rightarrow> optNum (priv_hotfix struct)
      | Prerelease \<Rightarrow> optStr (priv_prerelease struct)
      | Build \<Rightarrow> optStr (priv_build struct))"

record ComplianceMessage =
  message :: string
  mtype :: string

record FieldMessage = ComplianceMessage +
  mfield :: string

record 'm ComplianceResult =
  success :: bool
  messages :: "'m list"

record ('m, 'k) ComplianceReport = "'m ComplianceResult" +
  field :: 'k

text \<open>The callback of \<^verbatim>\<open>setting.some(...)\<close> (lines 222 to 230).\<close>

fun ruleMatches :: "rule \<Rightarrow> jsval \<Rightarrow> bool" where
  "ruleMatches (RStr s) x =
     (if s = [] then isUndefined x else (case x of JStr t \<Rightarrow> s = t | _ \<Rightarrow> False))"
| "ruleMatches (RNum n) x = (case x of JNum m \<Rightarrow> n = m | _ \<Rightarrow> False)"
| "ruleMatches RNonInt x = False"
| "ruleMatches (RRegExp p) x = p (if truthy x then asString x else [])"

definition violation :: "key \<Rightarrow> string \<Rightarrow> (ComplianceMessage, key) ComplianceReport" where
  "violation k what =
     \<lparr>success = False,
      messages = [\<lparr>message = ''Semantic Version Setting '' @ keyName k @ what,
                   mtype = ''error''\<rparr>],
      field = k\<rparr>"

text \<open>\<^verbatim>\<open>checkCustomComplianceForSingleSetting(key, struct)\<close>. Line 179 reads
  \<^verbatim>\<open>struct.ComplianceSettings[key]\<close>, which throws when the Version holds no settings.
  The test \<^verbatim>\<open>if (struct)\<close> holds for every instance, so the final \<^verbatim>\<open>throw\<close> is not
  reached.\<close>

definition checkCustomComplianceForSingleSetting ::
  "key \<Rightarrow> SemanticVersion \<Rightarrow> exn + (ComplianceMessage, key) ComplianceReport" where
  "checkCustomComplianceForSingleSetting k struct =
     (case priv_complianceSettings struct of
        None \<Rightarrow> Inl TypeError
      | Some cs \<Rightarrow>
          (let setting = cs k;
               expectedType = (if k = Hotfix then ''number'' else ''string'');
               ok = \<lparr>success = True, messages = [], field = k\<rparr>
           in case setting of
                Required \<Rightarrow>
                  if \<not> truthy (fieldOf struct k) \<or>
                     typeof (fieldOf struct k) \<noteq> expectedType \<or>
                     (if expectedType = ''string''
                      then length (trim (asString (fieldOf struct k))) > 0
                      else True)
                  then Inr (violation k '' is required'')
                  else Inr ok
              | Forbidden \<Rightarrow>
                  if \<not> isUndefined (fieldOf struct k)
                  then Inr (violation k '' is forbidden'')
                  else Inr ok
              | Optional \<Rightarrow> Inr ok
              | Rules rs \<Rightarrow>
                  if \<not> list_ex (\<lambda>s. ruleMatches s (fieldOf struct k)) rs
                  then Inr (violation k '' does not match required format'')
                  else Inr ok))"

fun collect :: "(exn + 'a) list \<Rightarrow> exn + 'a list" where
  "collect [] = Inr []"
| "collect (Inl e # rs) = Inl e"
| "collect (Inr r # rs) = (case collect rs of Inl e \<Rightarrow> Inl e | Inr xs \<Rightarrow> Inr (r # xs))"

definition checkCustomCompliance ::
  "SemanticVersion \<Rightarrow> exn + ComplianceMessage ComplianceResult" where
  "checkCustomCompliance struct =
     (case collect (map (\<lambda>k. checkCustomComplianceForSingleSetting k struct)
                        [Branch, Label, Hotfix, Prerelease, Build]) of
        Inl e \<Rightarrow> Inl e
      | Inr complianceMessages \<Rightarrow>
          Inr \<lparr>success = list_all success complianceMessages,
               messages = concat (map messages complianceMessages)\<rparr>)"

fun nonNull :: "'a option list \<Rightarrow> 'a list" where
  "nonNull [] = []"
| "nonNull (None # xs) = nonNull xs"
| "nonNull (Some x # xs) = x # nonNull xs"

definition msg :: "string \<Rightarrow> string \<Rightarrow> string \<Rightarrow> FieldMessage" where
  "msg f m t = \<lparr>message = m, mtype = t, mfield = f\<rparr>"

text \<open>The array \<^verbatim>\<open>messages\<close> of \<^verbatim>\<open>checkStandardCompliance\<close> (lines 273 to 352).\<close>

definition standardMessages :: "SemanticVersion \<Rightarrow> bool \<Rightarrow> FieldMessage list" where
  "standardMessages struct strict =
     nonNull
        [if strict
         then Some (msg ''Branch'' ''Branch is not a standard notation''
                      (if priv_branch struct \<noteq> None then ''error'' else ''info''))
         else if BranchSchema (optStr (priv_branch struct)) \<noteq> None then None
         else Some (msg ''Branch'' ''Branch does not match required format'' ''error''),
         if strict \<and> truthy (optStr (priv_label struct))
         then Some (msg ''Label'' ''Label is not a standard notation'' ''error'')
         else if LabelSchema (optStr (priv_label struct)) \<noteq> None then None
         else Some (msg ''Label'' ''Label does not match required format'' ''error''),
         if MajorVersionSchema (JNum (priv_major struct)) \<noteq> None then None
         else Some (msg ''Major'' ''Major Version does not match required format'' ''error''),
         if MinorVersionSchema (JNum (priv_minor struct)) \<noteq> None then None
         else Some (msg ''Minor'' ''Minor Version does not match required format'' ''error''),
         if PatchVersionSchema (JNum (priv_patch struct)) \<noteq> None then None
         else Some (msg ''Patch'' ''Patch Version does not match required format'' ''error''),
         if strict
         then Some (msg ''Hotfix'' ''Hotfix is not a standard notation''
                      (if priv_hotfix struct \<noteq> None then ''error'' else ''info''))
         else if HotfixVersionSchema (optNum (priv_hotfix struct)) \<noteq> None then None
         else Some (msg ''Hotfix'' ''Hotfix Version does not match required format'' ''error''),
         if PrereleaseVersionSchema (optStr (priv_prerelease struct)) \<noteq> None then None
         else Some (msg ''Prerelease'' ''Prerelease Version does not match required format''
                      ''error''),
         if BuildVersionSchema (optStr (priv_build struct)) \<noteq> None then None
         else Some (msg ''Build'' ''Build Version does not match required format'' ''error'')]"

definition checkStandardCompliance ::
  "SemanticVersion \<Rightarrow> bool \<Rightarrow> FieldMessage ComplianceResult" where
  "checkStandardCompliance struct strict =
     (let msgs = standardMessages struct strict
      in \<lparr>success = \<not> list_ex (\<lambda>m. mtype m = ''error'') msgs, messages = msgs\<rparr>)"

definition isStandardCompliant :: "SemanticVersion \<Rightarrow> bool \<Rightarrow> bool" where
  "isStandardCompliant this strict = success (checkStandardCompliance this strict)"

definition isCustomCompliant :: "SemanticVersion \<Rightarrow> exn + bool" where
  "isCustomCompliant this = map_sum id success (checkCustomCompliance this)"

subsection \<open>Precedence\<close>

text \<open>\<^verbatim>\<open>String.prototype.localeCompare\<close> belongs to the host and depends on its locale
  data; it is the parameter \<open>localeCompare\<close>. The numbers are safe integers, so the
  subtractions are exact.\<close>

definition comparePrecedence ::
  "(string \<Rightarrow> string \<Rightarrow> int) \<Rightarrow> SemanticVersion \<Rightarrow> SemanticVersion \<Rightarrow> int" where
  "comparePrecedence localeCompare this other =
     (if priv_branch this \<noteq> priv_branch other
      then localeCompare (case priv_branch this of None \<Rightarrow> [] | Some b \<Rightarrow> b)
                         (case priv_branch other of None \<Rightarrow> [] | Some b \<Rightarrow> b)
      else if priv_major this \<noteq> priv_major other then priv_major this - priv_major other
      else if priv_minor this \<noteq> priv_minor other then priv_minor this - priv_minor other
      else if priv_patch this \<noteq> priv_patch other then priv_patch this - priv_patch other
      else if priv_hotfix this \<noteq> priv_hotfix other
      then (case priv_hotfix this of None \<Rightarrow> 0 | Some h \<Rightarrow> h) -
           (case priv_hotfix other of None \<Rightarrow> 0 | Some h \<Rightarrow> h)
      else 0)"

definition compare ::
  "(string \<Rightarrow> string \<Rightarrow> int) \<Rightarrow> SemanticVersion \<Rightarrow> SemanticVersion \<Rightarrow> int" where
  "compare localeCompare a b = comparePrecedence localeCompare a b"

subsection \<open>The process state\<close>

text \<open>The static \<^verbatim>\<open>SemanticVersion._complianceSettings\<close> is the one mutable cell of the
  class. The state also keeps the instances created so far, in the order of their
  creation, so that a reference to an instance is its index.\<close>

record state =
  static_complianceSettings :: "SemanticVersionComplianceSettings option"
  instances :: "SemanticVersion list"

definition setDefaultComplianceSettings ::
  "SemanticVersionComplianceSettings \<Rightarrow> state \<Rightarrow> state" where
  "setDefaultComplianceSettings settings st = st\<lparr>static_complianceSettings := Some settings\<rparr>"

definition DefaultComplianceSettings :: "state \<Rightarrow> SemanticVersionComplianceSettings option" where
  "DefaultComplianceSettings st = static_complianceSettings st"

text \<open>A call that evaluates \<^verbatim>\<open>new SemanticVersion(...)\<close> adds the instance when the
  constructor returns, and leaves the state alone when it throws.\<close>

definition alloc :: "exn + SemanticVersion \<Rightarrow> state \<Rightarrow> (exn + nat) \<times> state" where
  "alloc r st =
     (case r of
        Inl e \<Rightarrow> (Inl e, st)
      | Inr v \<Rightarrow> (Inr (length (instances st)), st\<lparr>instances := instances st @ [v]\<rparr>))"

definition new_SemanticVersion :: "jsval \<Rightarrow> state \<Rightarrow> (exn + nat) \<times> state" where
  "new_SemanticVersion initializer st =
     alloc (construct (static_complianceSettings st) initializer) st"

definition ComplianceSettings :: "state \<Rightarrow> nat \<Rightarrow> SemanticVersionComplianceSettings option" where
  "ComplianceSettings st r = priv_complianceSettings (instances st ! r)"

datatype call =
    New jsval
  | TryParse jsval
  | SetDefault SemanticVersionComplianceSettings
  | ChangeBranch nat jsval
  | ChangeLabel nat jsval
  | ChangeMajor nat jsval
  | ChangeMinor nat jsval
  | ChangePatch nat jsval
  | ChangeHotfix nat jsval
  | ChangePrerelease nat jsval
  | ChangeBuild nat jsval
  | IncrementMajor nat
  | IncrementMinor nat
  | IncrementPatch nat
  | IncrementHotfix nat

fun exec :: "call \<Rightarrow> state \<Rightarrow> state" where
  "exec (New x) st = snd (new_SemanticVersion x st)"
| "exec (TryParse x) st =
     (case tryParse (static_complianceSettings st) x of
        Inr (Some v) \<Rightarrow> snd (alloc (Inr v) st)
      | _ \<Rightarrow> st)"
| "exec (SetDefault settings) st = setDefaultComplianceSettings settings st"
| "exec (ChangeBranch r x) st =
     snd (alloc (changeBranch (static_complianceSettings st) (instances st ! r) x) st)"
| "exec (ChangeLabel r x) st =
     snd (alloc (changeLabel (static_complianceSettings st) (instances st ! r) x) st)"
| "exec (ChangeMajor r x) st =
     snd (alloc (changeMajor (static_complianceSettings st) (instances st ! r) x) st)"
| "exec (ChangeMinor r x) st =
     snd (alloc (changeMinor (static_complianceSettings st) (instances st ! r) x) st)"
| "exec (ChangePatch r x) st =
     snd (alloc (changePatch (static_complianceSettings st) (instances st ! r) x) st)"
| "exec (ChangeHotfix r x) st =
     snd (alloc (changeHotfix (static_complianceSettings st) (instances st ! r) x) st)"
| "exec (ChangePrerelease r x) st =
     snd (alloc (changePrerelease (static_complianceSettings st) (instances st ! r) x) st)"
| "exec (ChangeBuild r x) st =
     snd (alloc (changeBuild (static_complianceSettings st) (instances st ! r) x) st)"
| "exec (IncrementMajor r) st =
     snd (alloc (incrementMajor (static_complianceSettings st) (instances st ! r)) st)"
| "exec (IncrementMinor r) st =
     snd (alloc (incrementMinor (static_complianceSettings st) (instances st ! r)) st)"
| "exec (IncrementPatch r) st =
     snd (alloc (incrementPatch (static_complianceSettings st) (instances st ! r)) st)"
| "exec (IncrementHotfix r) st =
     snd (alloc (incrementHotfix (static_complianceSettings st) (instances st ! r)) st)"

fun run :: "call list \<Rightarrow> state \<Rightarrow> state" where
  "run [] st = st"
| "run (c # cs) st = run cs (exec c st)"

section \<open>Notions used in the properties\<close>

text \<open>The invariant of the class: the fields of a Version pass the schemas of their
  keys. (\<open>LabelSchema\<close> is left out; it refuses no string.)\<close>

definition validVersion :: "SemanticVersion \<Rightarrow> bool" where
  "validVersion v =
     (BranchSchema (optStr (priv_branch v)) = Some (priv_branch v) \<and>
      numberSchema (JNum (priv_major v)) = Some (priv_major v) \<and>
      numberSchema (JNum (priv_minor v)) = Some (priv_minor v) \<and>
      numberSchema (JNum (priv_patch v)) = Some (priv_patch v) \<and>
      HotfixVersionSchema (optNum (priv_hotfix v)) = Some (priv_hotfix v) \<and>
      PrereleaseVersionSchema (optStr (priv_prerelease v)) = Some (priv_prerelease v) \<and>
      BuildVersionSchema (optStr (priv_build v)) = Some (priv_build v))"

text \<open>\<^verbatim>\<open>this.Branch ?? ""\<close> and \<^verbatim>\<open>this.Hotfix ?? 0\<close>\<close>

definition branchOrEmpty :: "SemanticVersion \<Rightarrow> string" where
  "branchOrEmpty v = (case priv_branch v of None \<Rightarrow> [] | Some b \<Rightarrow> b)"

definition hotfixOrZero :: "SemanticVersion \<Rightarrow> int" where
  "hotfixOrZero v = (case priv_hotfix v of None \<Rightarrow> 0 | Some h \<Rightarrow> h)"

text \<open>The order as the specification words it: lexicographic over the branch (compared by
  the locale, absent as the empty string), then major, minor, patch, then hotfix (absent
  as 0); the first field with a difference decides, and equality on all of them gives 0.\<close>

definition specPrecedence ::
  "(string \<Rightarrow> string \<Rightarrow> int) \<Rightarrow> SemanticVersion \<Rightarrow> SemanticVersion \<Rightarrow> int" where
  "specPrecedence localeCompare a b =
     (if localeCompare (branchOrEmpty a) (branchOrEmpty b) \<noteq> 0
      then localeCompare (branchOrEmpty a) (branchOrEmpty b)
      else if priv_major a \<noteq> priv_major b then priv_major a - priv_major b
      else if priv_minor a \<noteq> priv_minor b then priv_minor a - priv_minor b
      else if priv_patch a \<noteq> priv_patch b then priv_patch a - priv_patch b
      else hotfixOrZero a - hotfixOrZero b)"

text \<open>What the language asks of \<^verbatim>\<open>localeCompare\<close>: a consistent comparison. Whether it
  tells two different strings apart is a further property, which a host need not have
  (canonically equivalent strings compare as 0, and collations ignore some characters).\<close>

definition consistentComparator :: "(string \<Rightarrow> string \<Rightarrow> int) \<Rightarrow> bool" where
  "consistentComparator lc =
     ((\<forall>x. lc x x = 0) \<and>
      (\<forall>x y. (lc x y < 0) = (0 < lc y x)) \<and>
      (\<forall>x y z. lc x y \<le> 0 \<and> lc y z \<le> 0 \<longrightarrow> lc x z \<le> 0))"

definition separates :: "(string \<Rightarrow> string \<Rightarrow> int) \<Rightarrow> string list \<Rightarrow> bool" where
  "separates lc xs = (\<forall>x \<in> set xs. \<forall>y \<in> set xs. lc x y = 0 \<longrightarrow> x = y)"

text \<open>Two comparisons to instantiate the parameter with: by code units, and by code units
  after dropping the control characters U+0000 to U+0008, which collation tables give
  no weight.\<close>

definition codeUnitCompare :: "string \<Rightarrow> string \<Rightarrow> int" where
  "codeUnitCompare x y = (if x < y then - 1 else if x = y then 0 else 1)"

definition ignorable :: "char \<Rightarrow> bool" where
  "ignorable c = (of_char c \<le> (8 :: nat))"

definition ignoringControls :: "string \<Rightarrow> string \<Rightarrow> int" where
  "ignoringControls x y =
     codeUnitCompare (filter (\<lambda>c. \<not> ignorable c) x) (filter (\<lambda>c. \<not> ignorable c) y)"

subsection \<open>Example values\<close>

text \<open>Versions, initializers and states on which the theorems below are instantiated.\<close>

definition v_1_0_0 :: "string option \<Rightarrow> string option \<Rightarrow> int option \<Rightarrow> SemanticVersion" where
  "v_1_0_0 b l h =
     \<lparr>priv_complianceSettings = None, priv_branch = b, priv_label = l,
      priv_major = 1, priv_minor = 0, priv_patch = 0, priv_hotfix = h,
      priv_prerelease = None, priv_build = None\<rparr>"

definition releaseVersion :: SemanticVersion where
  "releaseVersion =
     \<lparr>priv_complianceSettings = None, priv_branch = Some ''release'', priv_label = None,
      priv_major = 2, priv_minor = 0, priv_patch = 0, priv_hotfix = Some 5,
      priv_prerelease = Some ''beta.1'', priv_build = Some ''build.007''\<rparr>"

definition branchRequiredInit :: jsval where
  "branchRequiredInit =
     JObj [(''branch'', JStr ''main''), (''major'', JNum 1), (''minor'', JNum 0),
           (''patch'', JNum 0),
           (''complianceSettings'', JObj [(''Branch'', JStr ''required'')])]"

definition emptyState :: state where
  "emptyState = \<lparr>static_complianceSettings = None, instances = []\<rparr>"

definition allForbidden :: SemanticVersionComplianceSettings where
  "allForbidden = (\<lambda>k. Forbidden)"

definition mainOlder :: SemanticVersion where
  "mainOlder =
     \<lparr>priv_complianceSettings = None, priv_branch = Some ''main'', priv_label = None,
      priv_major = 1, priv_minor = 2, priv_patch = 0, priv_hotfix = None,
      priv_prerelease = None, priv_build = Some ''7''\<rparr>"

definition mainNewer :: SemanticVersion where
  "mainNewer =
     \<lparr>priv_complianceSettings = None, priv_branch = Some ''main'', priv_label = None,
      priv_major = 1, priv_minor = 2, priv_patch = 0, priv_hotfix = Some 1,
      priv_prerelease = Some ''rc'', priv_build = None\<rparr>"

text \<open>Three Versions whose branches differ only by the control character U+0001.\<close>

definition ctl1 :: SemanticVersion where
  "ctl1 =
     \<lparr>priv_complianceSettings = None, priv_branch = Some (''main'' @ [CHR 0x01]),
      priv_label = None, priv_major = 1, priv_minor = 0, priv_patch = 0,
      priv_hotfix = None, priv_prerelease = None, priv_build = None\<rparr>"

definition plain2 :: SemanticVersion where
  "plain2 =
     \<lparr>priv_complianceSettings = None, priv_branch = Some ''main'',
      priv_label = None, priv_major = 2, priv_minor = 0, priv_patch = 0,
      priv_hotfix = None, priv_prerelease = None, priv_build = None\<rparr>"

definition ctl3 :: SemanticVersion where
  "ctl3 =
     \<lparr>priv_complianceSettings = None, priv_branch = Some (''main'' @ [CHR 0x01]),
      priv_label = None, priv_major = 3, priv_minor = 0, priv_patch = 0,
      priv_hotfix = None, priv_prerelease = None, priv_build = None\<rparr>"

section \<open>Properties\<close>

subsection \<open>Matching\<close>

text \<open>A pattern that can match the empty string at the very end of the input always
  yields a match.\<close>

lemma matches_g_nonempty:
  assumes "\<And>b. rx ic r b [] \<noteq> []"
  shows "matches_g ic r b s \<noteq> []"
proof (induction s arbitrary: b)
  case Nil
  show ?case using assms[of b] by (cases "rx ic r b []") simp_all
next
  case (Cons c cs)
  show ?case using Cons[of False] by (cases "rx ic r b (c # cs)") simp_all
qed

lemma labelRegex_end: "rx True labelRegex b [] \<noteq> []"
  by (simp add: labelRegex_def lit_matches_def)

lemma labelRegex_matches: "match_g True labelRegex k \<noteq> None"
  using matches_g_nonempty[of True labelRegex True k, OF labelRegex_end]
  by (simp add: match_g_def split: list.splits)

lemma LabelSchema_string: "LabelSchema (JStr k) = Some (Some k)"
  using labelRegex_matches[of k] by (cases "match_g True labelRegex k") simp_all

text \<open>A pattern that starts with \<^verbatim>\<open>^\<close> matches at index 0 or nowhere.\<close>

lemma matches_g_anchored: "matches_g ic (Seq Bol r) False s = []"
  by (induction s) simp_all

lemma match_g_anchored_None:
  assumes "rx ic (Seq Bol r) True s = []"
  shows "match_g ic (Seq Bol r) s = None"
proof -
  have "matches_g ic (Seq Bol r) True s = []"
    using assms
    by (subst matches_g.simps)
       (simp add: matches_g_anchored del: rx.simps matches_g.simps split: list.splits)
  then show ?thesis by (simp add: match_g_def)
qed

lemma rx_release: "rx True semanticVersionRegex True ''release 2.0.0.5-beta.1+build.007'' = []"
  by code_simp

lemma no_match_release:
  "match_g True semanticVersionRegex ''release 2.0.0.5-beta.1+build.007'' = None"
  unfolding semanticVersionRegex_def
  apply (rule match_g_anchored_None)
  using rx_release unfolding semanticVersionRegex_def .

lemma rx_two_numbers: "rx True semanticVersionRegex True ''1.2'' = []"
  by code_simp

lemma no_match_two_numbers: "match_g True semanticVersionRegex ''1.2'' = None"
  unfolding semanticVersionRegex_def
  apply (rule match_g_anchored_None)
  using rx_two_numbers unfolding semanticVersionRegex_def .

subsection \<open>The schemas and the constructor\<close>

lemma schema_undefined: "SemanticVersionSchema JUndefined = Inl [[]]"
  by (simp add: SemanticVersionSchema_def)

lemmas schema_defs = fromObject_def SemanticVersionSchema_def spreadThis_def ownProperties_def
  lookup_def issue_def Let_def MajorVersionSchema_def MinorVersionSchema_def
  PatchVersionSchema_def

text \<open>A parse succeeds exactly when every key passes its schema.\<close>

lemma schema_Inr:
  "SemanticVersionSchema x = Inr st \<longleftrightarrow>
     isObject x \<and>
     BranchSchema (getProp x ''branch'') = Some (branch st) \<and>
     LabelSchema (getProp x ''label'') = Some (label st) \<and>
     MajorVersionSchema (getProp x ''major'') = Some (major st) \<and>
     MinorVersionSchema (getProp x ''minor'') = Some (minor st) \<and>
     PatchVersionSchema (getProp x ''patch'') = Some (patch st) \<and>
     HotfixVersionSchema (getProp x ''hotfix'') = Some (hotfix st) \<and>
     PrereleaseVersionSchema (getProp x ''prerelease'') = Some (prerelease st) \<and>
     BuildVersionSchema (getProp x ''build'') = Some (build st) \<and>
     complianceSettingsSchema (getProp x ''complianceSettings'') = Some (complianceSettings st)"
  by (cases st) (auto simp add: SemanticVersionSchema_def Let_def split: option.splits)

text \<open>Parsed data passes the schema that produced it.\<close>

lemma BranchSchema_idem: "BranchSchema y = Some b \<Longrightarrow> BranchSchema (optStr b) = Some b"
  by (cases y; cases b) (auto split: if_splits)

lemma LabelSchema_idem: "LabelSchema y = Some l \<Longrightarrow> LabelSchema (optStr l) = Some l"
  by (cases l) (simp_all add: LabelSchema_string del: LabelSchema.simps(2))

lemma numberSchema_idem: "numberSchema y = Some n \<Longrightarrow> numberSchema (JNum n) = Some n"
  by (cases y) (auto split: if_splits)

lemma HotfixVersionSchema_idem:
  "HotfixVersionSchema y = Some h \<Longrightarrow> HotfixVersionSchema (optNum h) = Some h"
  by (cases y; cases h) (auto split: if_splits)

lemma PrereleaseVersionSchema_idem:
  "PrereleaseVersionSchema y = Some p \<Longrightarrow> PrereleaseVersionSchema (optStr p) = Some p"
  by (cases y; cases p) (auto split: if_splits)

lemma BuildVersionSchema_idem:
  "BuildVersionSchema y = Some p \<Longrightarrow> BuildVersionSchema (optStr p) = Some p"
  by (cases y; cases p) (auto split: if_splits)

lemma stringRule_idem: "stringRule x = Some r \<Longrightarrow> stringRule (jsval_of_rule r) = Some r"
  by (cases x) auto

lemma numberRule_idem: "numberRule x = Some r \<Longrightarrow> numberRule (jsval_of_rule r) = Some r"
  by (cases x) auto

lemma ruleList_idem:
  assumes "\<And>x r. elem x = Some r \<Longrightarrow> elem (jsval_of_rule r) = Some r"
  shows "ruleList elem xs = Some rs \<Longrightarrow> ruleList elem (map jsval_of_rule rs) = Some rs"
proof (induction xs arbitrary: rs)
  case Nil
  then show ?case by simp
next
  case (Cons x xs)
  then show ?case using assms by (auto split: option.splits)
qed

lemma settingSchema_idem:
  assumes "\<And>x r. elem x = Some r \<Longrightarrow> elem (jsval_of_rule r) = Some r"
    and "settingSchema elem y = Some t"
  shows "settingSchema elem (jsval_of_setting t) = Some t"
  using assms(2) ruleList_idem[of elem, OF assms(1)]
  by (cases y) (auto split: if_splits)

lemma settingsObjectSchema_idem:
  assumes "settingsObjectSchema y = Some f"
  shows "settingsObjectSchema (jsval_of_settings f) = Some f"
proof -
  from assms obtain b l h p u where
    b: "settingSchema stringRule (getProp y ''Branch'') = Some b" and
    l: "settingSchema stringRule (getProp y ''Label'') = Some l" and
    h: "settingSchema numberRule (getProp y ''Hotfix'') = Some h" and
    p: "settingSchema stringRule (getProp y ''Prerelease'') = Some p" and
    u: "settingSchema stringRule (getProp y ''Build'') = Some u" and
    f: "f = (\<lambda>k. case k of Branch \<Rightarrow> b | Label \<Rightarrow> l | Hotfix \<Rightarrow> h | Prerelease \<Rightarrow> p | Build \<Rightarrow> u)"
    by (auto simp: settingsObjectSchema_def split: if_splits option.splits)
  note sb = settingSchema_idem[of stringRule, OF stringRule_idem b]
  note sl = settingSchema_idem[of stringRule, OF stringRule_idem l]
  note sh = settingSchema_idem[of numberRule, OF numberRule_idem h]
  note sp = settingSchema_idem[of stringRule, OF stringRule_idem p]
  note su = settingSchema_idem[of stringRule, OF stringRule_idem u]
  show ?thesis
    unfolding f
    by (simp add: settingsObjectSchema_def jsval_of_settings_def lookup_def sb sl sh sp su)
qed

lemma complianceSettingsSchema_idem:
  "complianceSettingsSchema y = Some c \<Longrightarrow> complianceSettingsSchema (optSettings c) = Some c"
proof (cases c)
  case None
  then show ?thesis by simp
next
  case (Some f)
  assume "complianceSettingsSchema y = Some c"
  then have "settingsObjectSchema y = Some f" using Some by (cases y) auto
  then have "settingsObjectSchema (jsval_of_settings f) = Some f"
    by (rule settingsObjectSchema_idem)
  then show ?thesis using Some by (simp add: jsval_of_settings_def)
qed

lemma getProp_struct:
  "getProp (jsval_of_struct st) ''branch'' = optStr (branch st)"
  "getProp (jsval_of_struct st) ''label'' = optStr (label st)"
  "getProp (jsval_of_struct st) ''major'' = JNum (major st)"
  "getProp (jsval_of_struct st) ''minor'' = JNum (minor st)"
  "getProp (jsval_of_struct st) ''patch'' = JNum (patch st)"
  "getProp (jsval_of_struct st) ''hotfix'' = optNum (hotfix st)"
  "getProp (jsval_of_struct st) ''prerelease'' = optStr (prerelease st)"
  "getProp (jsval_of_struct st) ''build'' = optStr (build st)"
  "getProp (jsval_of_struct st) ''complianceSettings'' = optSettings (complianceSettings st)"
  "isObject (jsval_of_struct st)"
  by (simp_all add: jsval_of_struct_def lookup_def)

lemma reparse:
  assumes "SemanticVersionSchema x = Inr st"
  shows "SemanticVersionSchema (jsval_of_struct st) = Inr st"
proof -
  note a = assms[unfolded schema_Inr MajorVersionSchema_def MinorVersionSchema_def
      PatchVersionSchema_def]
  have 1: "BranchSchema (optStr (branch st)) = Some (branch st)"
    using a BranchSchema_idem by blast
  have 2: "LabelSchema (optStr (label st)) = Some (label st)"
    using a LabelSchema_idem by blast
  have 3: "numberSchema (JNum (major st)) = Some (major st)"
    using a numberSchema_idem by blast
  have 4: "numberSchema (JNum (minor st)) = Some (minor st)"
    using a numberSchema_idem by blast
  have 5: "numberSchema (JNum (patch st)) = Some (patch st)"
    using a numberSchema_idem by blast
  have 6: "HotfixVersionSchema (optNum (hotfix st)) = Some (hotfix st)"
    using a HotfixVersionSchema_idem by blast
  have 7: "PrereleaseVersionSchema (optStr (prerelease st)) = Some (prerelease st)"
    using a PrereleaseVersionSchema_idem by blast
  have 8: "BuildVersionSchema (optStr (build st)) = Some (build st)"
    using a BuildVersionSchema_idem by blast
  have 9: "complianceSettingsSchema (optSettings (complianceSettings st)) =
      Some (complianceSettings st)"
    using a complianceSettingsSchema_idem by blast
  show ?thesis
    unfolding schema_Inr getProp_struct MajorVersionSchema_def MinorVersionSchema_def
      PatchVersionSchema_def
    using 1 2 3 4 5 6 7 8 9 getProp_struct(10)[of st] by blast
qed

text \<open>The constructor returns Versions that satisfy the invariant, and never returns
  one for a string.\<close>

lemma fromObject_Inr:
  assumes "fromObject d x = Inr v"
  shows "\<exists>st. SemanticVersionSchema x = Inr st \<and>
     v = \<lparr>priv_complianceSettings =
                 (case complianceSettings st of Some cs \<Rightarrow> Some cs | None \<Rightarrow> d),
               priv_branch = branch st, priv_label = label st,
               priv_major = major st, priv_minor = minor st,
               priv_patch = patch st, priv_hotfix = hotfix st,
               priv_prerelease = prerelease st, priv_build = build st\<rparr>"
  using assms unfolding fromObject_def by (cases "SemanticVersionSchema x") auto

lemma fromObject_valid:
  assumes "fromObject d x = Inr v"
  shows "validVersion v"
proof -
  from fromObject_Inr[OF assms] obtain st where
    st: "SemanticVersionSchema x = Inr st" and
    v: "v = \<lparr>priv_complianceSettings =
                 (case complianceSettings st of Some cs \<Rightarrow> Some cs | None \<Rightarrow> d),
               priv_branch = branch st, priv_label = label st,
               priv_major = major st, priv_minor = minor st,
               priv_patch = patch st, priv_hotfix = hotfix st,
               priv_prerelease = prerelease st, priv_build = build st\<rparr>"
    by blast
  note a = st[unfolded schema_Inr MajorVersionSchema_def MinorVersionSchema_def
      PatchVersionSchema_def]
  have 1: "BranchSchema (optStr (branch st)) = Some (branch st)"
    using a BranchSchema_idem by blast
  have 3: "numberSchema (JNum (major st)) = Some (major st)"
    using a numberSchema_idem by blast
  have 4: "numberSchema (JNum (minor st)) = Some (minor st)"
    using a numberSchema_idem by blast
  have 5: "numberSchema (JNum (patch st)) = Some (patch st)"
    using a numberSchema_idem by blast
  have 6: "HotfixVersionSchema (optNum (hotfix st)) = Some (hotfix st)"
    using a HotfixVersionSchema_idem by blast
  have 7: "PrereleaseVersionSchema (optStr (prerelease st)) = Some (prerelease st)"
    using a PrereleaseVersionSchema_idem by blast
  have 8: "BuildVersionSchema (optStr (build st)) = Some (build st)"
    using a BuildVersionSchema_idem by blast
  show ?thesis unfolding validVersion_def v using 1 3 4 5 6 7 8 by simp
qed

lemma fromString_Inl: "\<exists>e. fromString d s = Inl e"
  by (simp add: fromString_def schema_undefined split: option.splits)

lemma construct_valid:
  assumes "construct d x = Inr v"
  shows "validVersion v"
proof (cases x)
  case (JStr s)
  then show ?thesis using assms fromString_Inl[of d s] by (auto split: if_splits)
next
  case JUndefined
  then show ?thesis using assms by (auto simp: validVersion_def MAX_SAFE_INTEGER_def)
next
  case JNull
  then show ?thesis using assms by (auto simp: validVersion_def MAX_SAFE_INTEGER_def)
qed (use assms fromObject_valid in auto)

text \<open>\<open>tryParse\<close> by the kind of its input.\<close>

lemma tryParse_string: "tryParse d (JStr s) = Inr None"
  by (simp add: tryParse_def split: option.splits)

lemma tryParse_object:
  assumes "isObject x"
  shows "tryParse d x =
     (case SemanticVersionSchema x of
        Inl issues \<Rightarrow> Inr None
      | Inr st \<Rightarrow> Inr (Some \<lparr>priv_complianceSettings =
                 (case complianceSettings st of Some cs \<Rightarrow> Some cs | None \<Rightarrow> d),
               priv_branch = branch st, priv_label = label st,
               priv_major = major st, priv_minor = minor st,
               priv_patch = patch st, priv_hotfix = hotfix st,
               priv_prerelease = prerelease st, priv_build = build st\<rparr>))"
proof (cases "SemanticVersionSchema x")
  case (Inl issues)
  then show ?thesis using assms by (cases x) (simp_all add: tryParse_def)
next
  case (Inr st)
  have "construct d (jsval_of_struct st) = fromObject d (jsval_of_struct st)"
    by (simp add: jsval_of_struct_def)
  then have c: "construct d (jsval_of_struct st) = Inr \<lparr>priv_complianceSettings =
                 (case complianceSettings st of Some cs \<Rightarrow> Some cs | None \<Rightarrow> d),
               priv_branch = branch st, priv_label = label st,
               priv_major = major st, priv_minor = minor st,
               priv_patch = patch st, priv_hotfix = hotfix st,
               priv_prerelease = prerelease st, priv_build = build st\<rparr>"
    by (simp add: fromObject_def reparse[OF Inr])
  show ?thesis using assms Inr c by (cases x) (simp_all add: tryParse_def)
qed

lemma tryParse_other: "\<not> isObject x \<Longrightarrow> tryParse d x = Inr None"
  by (cases x) (simp_all add: tryParse_def SemanticVersionSchema_def split: option.splits)

subsection \<open>Parsing strings\<close>

text \<open>C1. The claim is that parsing the string that \<open>toString\<close> renders gives back the
  fields of the Version. In the code every string is refused: \<open>tryParse\<close> reads
  \<^verbatim>\<open>groups\<close> off the array of a global match, gets \<^verbatim>\<open>undefined\<close> and returns
  \<^verbatim>\<open>undefined\<close>; the constructor hands that \<^verbatim>\<open>undefined\<close> to the schema and throws. So
  for every Version, parsing its rendering yields no Version at all.\<close>

theorem parse_of_rendering_fails:
  "tryParse d (JStr (toString v)) = Inr None \<and>
   (\<exists>e. construct d (JStr (toString v)) = Inl e)"
  by (simp add: tryParse_def fromString_def schema_undefined split: option.splits)

text \<open>C2. The claim is that \<^verbatim>\<open>release 2.0.0.5-beta.1+build.007\<close> parses to branch
  \<^verbatim>\<open>release\<close>, 2.0.0, hotfix 5, prerelease \<^verbatim>\<open>beta.1\<close>, build \<^verbatim>\<open>build.007\<close>, and renders
  back to itself. The pattern has no group for a branch and expects a dot, not a hyphen,
  before the prerelease, so the string does not match at all: \<open>tryParse\<close> returns
  \<^verbatim>\<open>undefined\<close> and the constructor throws. The Version with those fields, built from
  its fields, does render to the string.\<close>

theorem release_string_is_refused:
  "match_g True semanticVersionRegex ''release 2.0.0.5-beta.1+build.007'' = None \<and>
   tryParse d (JStr ''release 2.0.0.5-beta.1+build.007'') = Inr None \<and>
   construct d (JStr ''release 2.0.0.5-beta.1+build.007'') =
     Inl (Error ''Invalid Semantic Version String'') \<and>
   toString releaseVersion = ''release 2.0.0.5-beta.1+build.007''"
proof (intro conjI)
  show "match_g True semanticVersionRegex ''release 2.0.0.5-beta.1+build.007'' = None"
    by (rule no_match_release)
  show "tryParse d (JStr ''release 2.0.0.5-beta.1+build.007'') = Inr None"
    by (rule tryParse_string)
  show "construct d (JStr ''release 2.0.0.5-beta.1+build.007'') =
     Inl (Error ''Invalid Semantic Version String'')"
    by (simp add: fromString_def no_match_release)
  show "toString releaseVersion = ''release 2.0.0.5-beta.1+build.007''"
    by (simp add: toString_def releaseVersion_def numberToString_def digit_def)
qed

subsection \<open>Derived Versions\<close>

text \<open>\<open>incrementMajor\<close> sets all three required keys, so it does return a Version below
  the largest safe integer: the one with the next major number, and with the branch, the
  label and the settings of the original dropped (the copy holds them under \<^verbatim>\<open>_branch\<close>,
  \<^verbatim>\<open>_label\<close>, \<^verbatim>\<open>_complianceSettings\<close>).\<close>

lemma incrementMajor_result:
  assumes "0 \<le> priv_major v" "priv_major v < MAX_SAFE_INTEGER"
  shows "incrementMajor d v =
     Inr \<lparr>priv_complianceSettings = d, priv_branch = None, priv_label = None,
          priv_major = priv_major v + 1, priv_minor = 0, priv_patch = 0,
          priv_hotfix = None, priv_prerelease = None, priv_build = None\<rparr>"
  using assms by (simp add: incrementMajor_def schema_defs MAX_SAFE_INTEGER_def)

text \<open>C3. The claim is that each increment returns a Version with the bumped field and the
  lower fields reset. \<open>incrementMinor\<close>, \<open>incrementPatch\<close> and \<open>incrementHotfix\<close> build
  their initializer from \<^verbatim>\<open>{ ...this }\<close>, whose keys are \<^verbatim>\<open>_major\<close>, \<^verbatim>\<open>_minor\<close>, ...; the
  schema reads \<^verbatim>\<open>major\<close>, finds nothing and the constructor throws, for every Version.\<close>

theorem increments_below_major_throw:
  "(\<exists>ks. incrementMinor d v = Inl (ValidationError (''major'' # ks))) \<and>
   (\<exists>ks. incrementPatch d v = Inl (ValidationError (''major'' # ks))) \<and>
   (\<exists>ks. incrementHotfix d v = Inl (ValidationError (''major'' # ks)))"
proof (intro conjI)
  show "\<exists>ks. incrementMinor d v = Inl (ValidationError (''major'' # ks))"
    by (simp add: incrementMinor_def schema_defs split: option.splits)
  show "\<exists>ks. incrementPatch d v = Inl (ValidationError (''major'' # ks))"
    by (simp add: incrementPatch_def schema_defs split: option.splits)
  show "\<exists>ks. incrementHotfix d v = Inl (ValidationError (''major'' # ks))"
    by (simp add: incrementHotfix_def schema_defs split: option.splits)
qed

text \<open>C4. The claim is that \<open>changeX(value)\<close> returns a Version with exactly that field
  replaced. Each of the eight methods passes \<^verbatim>\<open>{ ...this, x }\<close> to the constructor; of the
  required keys \<^verbatim>\<open>major\<close>, \<^verbatim>\<open>minor\<close>, \<^verbatim>\<open>patch\<close> at most one is set, so the parse fails and
  the constructor throws, for every Version and every value.\<close>

theorem every_change_throws:
  "(\<exists>ks. changeBranch d v x = Inl (ValidationError ks)) \<and>
   (\<exists>ks. changeLabel d v x = Inl (ValidationError ks)) \<and>
   (\<exists>ks. changeMajor d v x = Inl (ValidationError ks)) \<and>
   (\<exists>ks. changeMinor d v x = Inl (ValidationError ks)) \<and>
   (\<exists>ks. changePatch d v x = Inl (ValidationError ks)) \<and>
   (\<exists>ks. changeHotfix d v x = Inl (ValidationError ks)) \<and>
   (\<exists>ks. changePrerelease d v x = Inl (ValidationError ks)) \<and>
   (\<exists>ks. changeBuild d v x = Inl (ValidationError ks))"
proof (intro conjI)
  show "\<exists>ks. changeBranch d v x = Inl (ValidationError ks)"
    by (simp add: changeBranch_def schema_defs split: option.splits)
  show "\<exists>ks. changeLabel d v x = Inl (ValidationError ks)"
    by (simp add: changeLabel_def schema_defs split: option.splits)
  show "\<exists>ks. changeMajor d v x = Inl (ValidationError ks)"
    by (simp add: changeMajor_def schema_defs split: option.splits)
  show "\<exists>ks. changeMinor d v x = Inl (ValidationError ks)"
    by (simp add: changeMinor_def schema_defs split: option.splits)
  show "\<exists>ks. changePatch d v x = Inl (ValidationError ks)"
    by (simp add: changePatch_def schema_defs split: option.splits)
  show "\<exists>ks. changeHotfix d v x = Inl (ValidationError ks)"
    by (simp add: changeHotfix_def schema_defs split: option.splits)
  show "\<exists>ks. changePrerelease d v x = Inl (ValidationError ks)"
    by (simp add: changePrerelease_def schema_defs split: option.splits)
  show "\<exists>ks. changeBuild d v x = Inl (ValidationError ks)"
    by (simp add: changeBuild_def schema_defs split: option.splits)
qed

subsection \<open>The label schema\<close>

text \<open>C8. The claim is that a label string is accepted only when it is empty or one of
  \<^verbatim>\<open>v\<close>, \<^verbatim>\<open>ver\<close>, \<^verbatim>\<open>version\<close>. The third alternative of the pattern, \<^verbatim>\<open>(?:version)?$\<close>,
  matches the empty string at the end of any input, so \<open>LabelSchema\<close> accepts every
  string, \<^verbatim>\<open>foo\<close> among them.\<close>

theorem LabelSchema_accepts_every_string:
  "LabelSchema (JStr k) = Some (Some k) \<and> LabelSchema (JStr ''foo'') = Some (Some ''foo'')"
  by (simp only: LabelSchema_string)

subsection \<open>\<open>tryParse\<close> returns\<close>

text \<open>C10. \<open>tryParse\<close> never throws: it returns for every input; it returns
  \<^verbatim>\<open>undefined\<close> for an input that is neither a string nor an object, for a string that does
  not match the grammar and for an input that the schema refuses; and a Version it returns
  satisfies the invariant of the class, so none is partially initialized.\<close>

theorem tryParse_total:
  "(\<exists>r. tryParse d input = Inr r) \<and>
   (typeof input \<noteq> ''string'' \<and> typeof input \<noteq> ''object'' \<longrightarrow> tryParse d input = Inr None) \<and>
   (match_g True semanticVersionRegex s = None \<longrightarrow> tryParse d (JStr s) = Inr None) \<and>
   (\<forall>issues. SemanticVersionSchema input = Inl issues \<longrightarrow> tryParse d input = Inr None) \<and>
   (\<forall>v. tryParse d input = Inr (Some v) \<longrightarrow> validVersion v)"
proof (intro conjI allI impI)
  show "\<exists>r. tryParse d input = Inr r"
  proof (cases "isObject input")
    case True
    then show ?thesis
      unfolding tryParse_object[OF True] by (cases "SemanticVersionSchema input") simp_all
  next
    case False
    then show ?thesis using tryParse_other by blast
  qed
next
  assume "typeof input \<noteq> ''string'' \<and> typeof input \<noteq> ''object''"
  then have "\<not> isObject input" by (cases input) auto
  then show "tryParse d input = Inr None" by (rule tryParse_other)
next
  show "tryParse d (JStr s) = Inr None" by (rule tryParse_string)
next
  fix issues assume i: "SemanticVersionSchema input = Inl issues"
  show "tryParse d input = Inr None"
  proof (cases "isObject input")
    case True
    then show ?thesis unfolding tryParse_object[OF True] using i by simp
  next
    case False
    then show ?thesis by (rule tryParse_other)
  qed
next
  fix v assume v: "tryParse d input = Inr (Some v)"
  then have o: "isObject input" using tryParse_other[of input d] by auto
  from v[unfolded tryParse_object[OF o]] obtain st where
    st: "SemanticVersionSchema input = Inr st"
    by (cases "SemanticVersionSchema input") auto
  have "fromObject d input = Inr v"
    using v[unfolded tryParse_object[OF o]] st by (simp add: fromObject_def)
  then show "validVersion v" by (rule fromObject_valid)
qed

lemma schema_branchRequiredInit:
  "SemanticVersionSchema branchRequiredInit =
     Inr \<lparr>branch = Some ''main'', label = None, major = 1, minor = 0, patch = 0,
          hotfix = None, prerelease = None, build = None,
          complianceSettings =
            Some (\<lambda>k. case k of Branch \<Rightarrow> Required | Label \<Rightarrow> Optional | Hotfix \<Rightarrow> Optional
                       | Prerelease \<Rightarrow> Optional | Build \<Rightarrow> Optional)\<rparr>"
  by (simp add: branchRequiredInit_def schema_defs settingsObjectSchema_def MAX_SAFE_INTEGER_def)

theorem tryParse_total_witness:
  "typeof (JNum 5) \<noteq> ''string'' \<and> typeof (JNum 5) \<noteq> ''object'' \<and>
   tryParse None (JNum 5) = Inr None \<and>
   match_g True semanticVersionRegex ''1.2'' = None \<and>
   tryParse None (JStr ''1.2'') = Inr None \<and>
   SemanticVersionSchema (JObj [(''major'', JStr ''1'')]) = Inl [''major'', ''minor'', ''patch''] \<and>
   tryParse None (JObj [(''major'', JStr ''1'')]) = Inr None \<and>
   (\<exists>v. tryParse None branchRequiredInit = Inr (Some v) \<and> validVersion v)"
proof -
  have t: "typeof (JNum 5) \<noteq> ''string'' \<and> typeof (JNum 5) \<noteq> ''object''" by simp
  have s: "SemanticVersionSchema (JObj [(''major'', JStr ''1'')]) =
      Inl [''major'', ''minor'', ''patch'']"
    by (simp add: schema_defs)
  have "isObject branchRequiredInit" by (simp add: branchRequiredInit_def)
  from tryParse_object[OF this, of None]
  obtain v where v: "tryParse None branchRequiredInit = Inr (Some v)"
    by (simp add: schema_branchRequiredInit)
  show ?thesis
    using tryParse_total[of None "JNum 5" "''1.2''"]
      tryParse_total[of None "JObj [(''major'', JStr ''1'')]" "''1.2''"]
      tryParse_total[of None branchRequiredInit "''1.2''"]
      t s v no_match_two_numbers
    by blast
qed

subsection \<open>Custom compliance: \<^verbatim>\<open>required\<close>\<close>

text \<open>What the \<^verbatim>\<open>required\<close> branch computes. For a string field the third disjunct of its
  condition is \<^verbatim>\<open>trim().length > 0\<close>, so the check passes only for a value that is present,
  not empty and all white space; for Hotfix the third disjunct is \<^verbatim>\<open>true\<close>, so the check
  never passes.\<close>

lemma required_string_field:
  assumes "priv_complianceSettings v = Some cs" "cs k = Required" "k \<noteq> Hotfix"
  shows "checkCustomComplianceForSingleSetting k v =
     Inr (if (\<exists>s. fieldOf v k = JStr s \<and> s \<noteq> [] \<and> trim s = [])
          then \<lparr>success = True, messages = [], field = k\<rparr>
          else violation k '' is required'')"
  using assms
  by (cases k; cases "priv_branch v"; cases "priv_label v"; cases "priv_prerelease v";
      cases "priv_build v")
     (auto simp add: checkCustomComplianceForSingleSetting_def fieldOf_def Let_def)

lemma required_hotfix:
  assumes "priv_complianceSettings v = Some cs" "cs Hotfix = Required"
  shows "checkCustomComplianceForSingleSetting Hotfix v = Inr (violation Hotfix '' is required'')"
  using assms
  by (simp add: checkCustomComplianceForSingleSetting_def fieldOf_def Let_def)

text \<open>C6. The claim is that under \<^verbatim>\<open>required\<close> a field that is present with a non-empty
  value passes. The Version built from branch \<^verbatim>\<open>main\<close>, 1.0.0 and the settings
  \<^verbatim>\<open>{Branch: "required"}\<close> has its branch present and non-empty, and the code reports the
  violation \<^verbatim>\<open>Semantic Version Setting Branch is required\<close> for it.\<close>

theorem required_rejects_present_branch:
  "\<exists>v. construct None branchRequiredInit = Inr v \<and>
        priv_branch v = Some ''main'' \<and>
        checkCustomComplianceForSingleSetting Branch v =
          Inr (violation Branch '' is required'') \<and>
        isCustomCompliant v = Inr False"
  by (simp add: branchRequiredInit_def schema_defs settingsObjectSchema_def
      MAX_SAFE_INTEGER_def checkCustomComplianceForSingleSetting_def fieldOf_def trim_def
      is_space_def isCustomCompliant_def checkCustomCompliance_def violation_def)

text \<open>The same Version, with the three disjuncts of the \<^verbatim>\<open>required\<close> test evaluated on
  its branch: the value is truthy, it is a string, and its trimmed length is positive,
  which is the disjunct that reports the violation.\<close>

theorem required_rejects_present_branch_witness:
  "\<exists>v. construct None branchRequiredInit = Inr v \<and>
        truthy (fieldOf v Branch) \<and> typeof (fieldOf v Branch) = ''string'' \<and>
        0 < length (trim (asString (fieldOf v Branch))) \<and>
        checkCustomComplianceForSingleSetting Branch v =
          Inr (violation Branch '' is required'')"
proof -
  from required_rejects_present_branch obtain v where
    c: "construct None branchRequiredInit = Inr v" and
    b: "priv_branch v = Some ''main''" and
    r: "checkCustomComplianceForSingleSetting Branch v = Inr (violation Branch '' is required'')"
    by blast
  have "truthy (fieldOf v Branch) \<and> typeof (fieldOf v Branch) = ''string'' \<and>
      0 < length (trim (asString (fieldOf v Branch)))"
    using b by (simp add: fieldOf_def trim_def is_space_def)
  with c r show ?thesis by blast
qed

subsection \<open>Standard compliance in strict mode\<close>

lemma nonNull_mem: "Some x \<in> set xs \<Longrightarrow> x \<in> set (nonNull xs)"
  by (induction xs rule: nonNull.induct) auto

lemma std_messages: "messages (checkStandardCompliance v strict) = standardMessages v strict"
  by (simp add: checkStandardCompliance_def Let_def)

lemma std_success:
  "success (checkStandardCompliance v strict) =
     (\<not> list_ex (\<lambda>m. mtype m = ''error'') (standardMessages v strict))"
  by (simp add: checkStandardCompliance_def Let_def)

text \<open>C7, as the claim states it: a present branch gives a message of severity
  \<^verbatim>\<open>info\<close>. For the Version \<^verbatim>\<open>main 1.0.0\<close> the strict check gives the Branch message with
  severity \<^verbatim>\<open>error\<close> (and an \<^verbatim>\<open>info\<close> message for the absent hotfix), and fails.\<close>

theorem strict_branch_counterexample:
  "checkStandardCompliance (v_1_0_0 (Some ''main'') None None) True =
     \<lparr>success = False,
      messages = [msg ''Branch'' ''Branch is not a standard notation'' ''error'',
                  msg ''Hotfix'' ''Hotfix is not a standard notation'' ''info'']\<rparr>"
  by (simp add: checkStandardCompliance_def standardMessages_def v_1_0_0_def
      MajorVersionSchema_def MinorVersionSchema_def PatchVersionSchema_def
      MAX_SAFE_INTEGER_def msg_def)

text \<open>C7, amended: in strict mode a present branch gives the Branch message with severity
  \<^verbatim>\<open>error\<close> and an absent one gives it with severity \<^verbatim>\<open>info\<close>; a present, non-empty label
  and a present hotfix each give a message with severity \<^verbatim>\<open>error\<close>; and in either mode the
  success flag is true exactly when no message has severity \<^verbatim>\<open>error\<close>.\<close>

theorem strict_mode_severities:
  "(priv_branch v \<noteq> None \<longrightarrow>
      msg ''Branch'' ''Branch is not a standard notation'' ''error''
        \<in> set (messages (checkStandardCompliance v True))) \<and>
   (priv_branch v = None \<longrightarrow>
      msg ''Branch'' ''Branch is not a standard notation'' ''info''
        \<in> set (messages (checkStandardCompliance v True))) \<and>
   (priv_label v \<noteq> None \<and> priv_label v \<noteq> Some [] \<longrightarrow>
      msg ''Label'' ''Label is not a standard notation'' ''error''
        \<in> set (messages (checkStandardCompliance v True))) \<and>
   (priv_hotfix v \<noteq> None \<longrightarrow>
      msg ''Hotfix'' ''Hotfix is not a standard notation'' ''error''
        \<in> set (messages (checkStandardCompliance v True))) \<and>
   (success (checkStandardCompliance v strict) \<longleftrightarrow>
      (\<forall>m \<in> set (messages (checkStandardCompliance v strict)). mtype m \<noteq> ''error''))"
proof (intro conjI impI)
  assume "priv_branch v \<noteq> None"
  then show "msg ''Branch'' ''Branch is not a standard notation'' ''error''
      \<in> set (messages (checkStandardCompliance v True))"
    unfolding std_messages standardMessages_def by (intro nonNull_mem) simp
next
  assume "priv_branch v = None"
  then show "msg ''Branch'' ''Branch is not a standard notation'' ''info''
      \<in> set (messages (checkStandardCompliance v True))"
    unfolding std_messages standardMessages_def by (intro nonNull_mem) simp
next
  assume "priv_label v \<noteq> None \<and> priv_label v \<noteq> Some []"
  then have "truthy (optStr (priv_label v))" by (cases "priv_label v") auto
  then show "msg ''Label'' ''Label is not a standard notation'' ''error''
      \<in> set (messages (checkStandardCompliance v True))"
    unfolding std_messages standardMessages_def by (intro nonNull_mem) simp
next
  assume "priv_hotfix v \<noteq> None"
  then show "msg ''Hotfix'' ''Hotfix is not a standard notation'' ''error''
      \<in> set (messages (checkStandardCompliance v True))"
    unfolding std_messages standardMessages_def by (intro nonNull_mem) simp
next
  show "success (checkStandardCompliance v strict) \<longleftrightarrow>
      (\<forall>m \<in> set (messages (checkStandardCompliance v strict)). mtype m \<noteq> ''error'')"
    unfolding std_messages std_success by (simp add: list_ex_iff)
qed

theorem strict_mode_severities_witness:
  "priv_branch (v_1_0_0 (Some ''main'') (Some ''v'') (Some 1)) \<noteq> None \<and>
   priv_label (v_1_0_0 (Some ''main'') (Some ''v'') (Some 1)) \<noteq> None \<and>
   priv_label (v_1_0_0 (Some ''main'') (Some ''v'') (Some 1)) \<noteq> Some [] \<and>
   priv_hotfix (v_1_0_0 (Some ''main'') (Some ''v'') (Some 1)) \<noteq> None \<and>
   msg ''Branch'' ''Branch is not a standard notation'' ''error''
     \<in> set (messages (checkStandardCompliance (v_1_0_0 (Some ''main'') (Some ''v'') (Some 1)) True)) \<and>
   msg ''Label'' ''Label is not a standard notation'' ''error''
     \<in> set (messages (checkStandardCompliance (v_1_0_0 (Some ''main'') (Some ''v'') (Some 1)) True)) \<and>
   msg ''Hotfix'' ''Hotfix is not a standard notation'' ''error''
     \<in> set (messages (checkStandardCompliance (v_1_0_0 (Some ''main'') (Some ''v'') (Some 1)) True)) \<and>
   priv_branch (v_1_0_0 None None None) = None \<and>
   msg ''Branch'' ''Branch is not a standard notation'' ''info''
     \<in> set (messages (checkStandardCompliance (v_1_0_0 None None None) True))"
  using strict_mode_severities[of "v_1_0_0 (Some ''main'') (Some ''v'') (Some 1)" True]
    strict_mode_severities[of "v_1_0_0 None None None" True]
  by (simp add: v_1_0_0_def)

subsection \<open>Precedence\<close>

lemma valid_branch: "validVersion v \<Longrightarrow> priv_branch v \<noteq> Some []"
  by (auto simp: validVersion_def)

lemma branch_eq_iff:
  assumes "validVersion a" "validVersion b"
  shows "(priv_branch a = priv_branch b) = (branchOrEmpty a = branchOrEmpty b)"
  using valid_branch[OF assms(1)] valid_branch[OF assms(2)]
  by (cases "priv_branch a"; cases "priv_branch b") (auto simp: branchOrEmpty_def)

lemma comparePrecedence_unfold:
  "comparePrecedence lc a b =
     (if priv_branch a \<noteq> priv_branch b then lc (branchOrEmpty a) (branchOrEmpty b)
      else if priv_major a \<noteq> priv_major b then priv_major a - priv_major b
      else if priv_minor a \<noteq> priv_minor b then priv_minor a - priv_minor b
      else if priv_patch a \<noteq> priv_patch b then priv_patch a - priv_patch b
      else if priv_hotfix a \<noteq> priv_hotfix b then hotfixOrZero a - hotfixOrZero b else 0)"
  unfolding comparePrecedence_def branchOrEmpty_def hotfixOrZero_def by (rule refl)

lemma hotfix_diff:
  "(if priv_hotfix a \<noteq> priv_hotfix b then hotfixOrZero a - hotfixOrZero b else 0) =
   hotfixOrZero a - hotfixOrZero b"
proof (cases "priv_hotfix a = priv_hotfix b")
  case True
  then have "hotfixOrZero a = hotfixOrZero b" by (simp add: hotfixOrZero_def)
  with True show ?thesis by simp
next
  case False
  then show ?thesis by simp
qed

lemma comparePrecedence_alt:
  "comparePrecedence lc a b =
     (if priv_branch a \<noteq> priv_branch b then lc (branchOrEmpty a) (branchOrEmpty b)
      else if priv_major a \<noteq> priv_major b then priv_major a - priv_major b
      else if priv_minor a \<noteq> priv_minor b then priv_minor a - priv_minor b
      else if priv_patch a \<noteq> priv_patch b then priv_patch a - priv_patch b
      else hotfixOrZero a - hotfixOrZero b)"
  unfolding comparePrecedence_unfold hotfix_diff by (rule refl)

lemma cc_refl: "consistentComparator lc \<Longrightarrow> lc x x = 0"
  unfolding consistentComparator_def by (elim conjE) (erule allE)

lemma cc_anti: "consistentComparator lc \<Longrightarrow> (lc x y < 0) = (0 < lc y x)"
  unfolding consistentComparator_def
  by (elim conjE) (erule_tac x = x in allE, erule_tac x = x in allE, erule_tac x = y in allE)

lemma cc_trans:
  "consistentComparator lc \<Longrightarrow> lc x y \<le> 0 \<Longrightarrow> lc y z \<le> 0 \<Longrightarrow> lc x z \<le> 0"
  unfolding consistentComparator_def by blast

lemma lc_zero_sym:
  assumes "consistentComparator lc" "lc x y = 0"
  shows "lc y x = 0"
  using cc_anti[OF assms(1), of x y] cc_anti[OF assms(1), of y x] assms(2) by linarith

lemma separates_pair: "separates lc [x, y] \<Longrightarrow> lc x y = 0 \<Longrightarrow> x = y"
  unfolding separates_def by simp

lemma separates_mono: "separates lc xs \<Longrightarrow> set ys \<subseteq> set xs \<Longrightarrow> separates lc ys"
  unfolding separates_def by blast

text \<open>Where the comparison tells the two branches apart, the code computes the order of
  the specification.\<close>

lemma compare_is_spec:
  assumes "consistentComparator lc" "validVersion a" "validVersion b"
    and "separates lc [branchOrEmpty a, branchOrEmpty b]"
  shows "comparePrecedence lc a b = specPrecedence lc a b"
proof (cases "branchOrEmpty a = branchOrEmpty b")
  case True
  then have "lc (branchOrEmpty a) (branchOrEmpty b) = 0" using cc_refl[OF assms(1)] by simp
  with True show ?thesis
    unfolding comparePrecedence_alt specPrecedence_def branch_eq_iff[OF assms(2,3)] by simp
next
  case False
  then have "lc (branchOrEmpty a) (branchOrEmpty b) \<noteq> 0"
    using separates_pair[OF assms(4)] by blast
  with False show ?thesis
    unfolding comparePrecedence_alt specPrecedence_def branch_eq_iff[OF assms(2,3)] by simp
qed

text \<open>The order of the specification is a total preorder for every consistent
  comparison.\<close>

lemma spec_antisym:
  assumes "consistentComparator lc"
  shows "(specPrecedence lc a b < 0) = (0 < specPrecedence lc b a)"
proof (cases "lc (branchOrEmpty a) (branchOrEmpty b) = 0")
  case True
  then have "lc (branchOrEmpty b) (branchOrEmpty a) = 0" using lc_zero_sym[OF assms] by blast
  with True show ?thesis by (auto simp: specPrecedence_def)
next
  case False
  then have "lc (branchOrEmpty b) (branchOrEmpty a) \<noteq> 0" using lc_zero_sym[OF assms] by blast
  with False show ?thesis
    using cc_anti[OF assms, of "branchOrEmpty a" "branchOrEmpty b"]
    by (simp add: specPrecedence_def)
qed

lemma spec_trans:
  assumes c: "consistentComparator lc"
    and ab: "specPrecedence lc a b \<le> 0" and bc: "specPrecedence lc b c \<le> 0"
  shows "specPrecedence lc a c \<le> 0"
proof -
  let ?x = "branchOrEmpty a" and ?y = "branchOrEmpty b" and ?z = "branchOrEmpty c"
  have anti: "\<And>x y. (lc x y < 0) = (0 < lc y x)" using cc_anti[OF c] .
  have tr: "\<And>x y z. lc x y \<le> 0 \<Longrightarrow> lc y z \<le> 0 \<Longrightarrow> lc x z \<le> 0" using cc_trans[OF c] .
  have xy: "lc ?x ?y \<le> 0" using ab by (auto simp: specPrecedence_def split: if_splits)
  have yz: "lc ?y ?z \<le> 0" using bc by (auto simp: specPrecedence_def split: if_splits)
  have xz: "lc ?x ?z \<le> 0" using tr[OF xy yz] .
  show ?thesis
  proof (cases "lc ?x ?z = 0")
    case False
    then show ?thesis using xz by (simp add: specPrecedence_def)
  next
    case True
    have "lc ?z ?x = 0" using True lc_zero_sym[OF c] by blast
    then have zx: "lc ?z ?x \<le> 0" by simp
    have "lc ?y ?x \<le> 0" using tr[OF yz zx] .
    then have xy0: "lc ?x ?y = 0" using xy anti[of ?x ?y] by linarith
    have "lc ?z ?y \<le> 0" using tr[OF zx xy] .
    then have yz0: "lc ?y ?z = 0" using yz anti[of ?y ?z] by linarith
    show ?thesis using ab bc True xy0 yz0
      by (simp add: specPrecedence_def split: if_splits)
  qed
qed

text \<open>The two comparisons of the examples are consistent; the one by code units tells
  any two strings apart.\<close>

lemma codeUnitCompare_consistent: "consistentComparator codeUnitCompare"
  unfolding consistentComparator_def codeUnitCompare_def by auto

lemma codeUnitCompare_separates: "separates codeUnitCompare xs"
  unfolding separates_def codeUnitCompare_def by (auto split: if_splits)

lemma ignoringControls_consistent: "consistentComparator ignoringControls"
  using codeUnitCompare_consistent
  unfolding consistentComparator_def ignoringControls_def by blast

lemma valid_examples:
  "validVersion (v_1_0_0 None None None)" "validVersion mainOlder" "validVersion mainNewer"
  by code_simp+

text \<open>Where the locale comparison is consistent and tells the branches of the Versions
  compared apart, \<open>comparePrecedence\<close> is the order of the specification, and so reflexive,
  antisymmetric and transitive; and Versions equal on branch, major, minor, patch and
  hotfix compare as 0 whatever their prerelease and build.\<close>

lemma precedence_where_separated:
  assumes "consistentComparator lc" "validVersion a" "validVersion b" "validVersion c"
    and "separates lc [branchOrEmpty a, branchOrEmpty b, branchOrEmpty c]"
  shows "comparePrecedence lc a b = specPrecedence lc a b \<and>
         compare lc a a = 0 \<and>
         (compare lc a b < 0) = (0 < compare lc b a) \<and>
         (compare lc a b \<le> 0 \<and> compare lc b c \<le> 0 \<longrightarrow> compare lc a c \<le> 0) \<and>
         (priv_branch a = priv_branch b \<and> priv_major a = priv_major b \<and>
          priv_minor a = priv_minor b \<and> priv_patch a = priv_patch b \<and>
          hotfixOrZero a = hotfixOrZero b \<longrightarrow> compare lc a b = 0)"
proof -
  have ab: "comparePrecedence lc a b = specPrecedence lc a b"
    by (rule compare_is_spec[OF assms(1,2,3)]) (rule separates_mono[OF assms(5)], simp)
  have ba: "comparePrecedence lc b a = specPrecedence lc b a"
    by (rule compare_is_spec[OF assms(1,3,2)]) (rule separates_mono[OF assms(5)], simp)
  have bc: "comparePrecedence lc b c = specPrecedence lc b c"
    by (rule compare_is_spec[OF assms(1,3,4)]) (rule separates_mono[OF assms(5)], simp)
  have ac: "comparePrecedence lc a c = specPrecedence lc a c"
    by (rule compare_is_spec[OF assms(1,2,4)]) (rule separates_mono[OF assms(5)], simp)
  have aa: "comparePrecedence lc a a = 0"
    unfolding comparePrecedence_alt by simp
  have anti: "(compare lc a b < 0) = (0 < compare lc b a)"
    unfolding compare_def ab ba by (rule spec_antisym[OF assms(1)])
  have trans: "compare lc a b \<le> 0 \<and> compare lc b c \<le> 0 \<longrightarrow> compare lc a c \<le> 0"
    unfolding compare_def ab bc ac using spec_trans[OF assms(1)] by blast
  have eq: "priv_branch a = priv_branch b \<and> priv_major a = priv_major b \<and>
          priv_minor a = priv_minor b \<and> priv_patch a = priv_patch b \<and>
          hotfixOrZero a = hotfixOrZero b \<longrightarrow> compare lc a b = 0"
    unfolding compare_def comparePrecedence_alt by simp
  show ?thesis using ab aa anti trans eq unfolding compare_def by blast
qed

lemma precedence_where_separated_example:
  "consistentComparator codeUnitCompare \<and>
   validVersion (v_1_0_0 None None None) \<and> validVersion mainOlder \<and> validVersion mainNewer \<and>
   separates codeUnitCompare
     [branchOrEmpty (v_1_0_0 None None None), branchOrEmpty mainOlder, branchOrEmpty mainNewer] \<and>
   comparePrecedence codeUnitCompare (v_1_0_0 None None None) mainOlder =
     specPrecedence codeUnitCompare (v_1_0_0 None None None) mainOlder \<and>
   compare codeUnitCompare (v_1_0_0 None None None) mainOlder < 0 \<and>
   0 < compare codeUnitCompare mainOlder (v_1_0_0 None None None) \<and>
   compare codeUnitCompare mainOlder mainNewer \<le> 0 \<and>
   compare codeUnitCompare (v_1_0_0 None None None) mainNewer \<le> 0 \<and>
   compare codeUnitCompare (v_1_0_0 None None None) (v_1_0_0 None None None) = 0"
proof -
  have lt: "compare codeUnitCompare (v_1_0_0 None None None) mainOlder < 0"
    by (simp add: compare_def comparePrecedence_def v_1_0_0_def mainOlder_def
        codeUnitCompare_def)
  have le: "compare codeUnitCompare mainOlder mainNewer \<le> 0"
    by (simp add: compare_def comparePrecedence_def mainOlder_def mainNewer_def)
  have le1: "compare codeUnitCompare (v_1_0_0 None None None) mainOlder \<le> 0"
    using lt by simp
  show ?thesis
    using precedence_where_separated[OF codeUnitCompare_consistent valid_examples
        codeUnitCompare_separates]
      codeUnitCompare_consistent valid_examples
      codeUnitCompare_separates[of "[branchOrEmpty (v_1_0_0 None None None),
        branchOrEmpty mainOlder, branchOrEmpty mainNewer]"]
      lt le le1
    by blast
qed

text \<open>C5. The claim is that \<open>comparePrecedence\<close> is a total order, lexicographic over the
  branch, then major, minor, patch and hotfix, antisymmetric and transitive. The order so
  worded, \<open>specPrecedence\<close>, is that for every consistent comparison (\<open>spec_antisym\<close>,
  \<open>spec_trans\<close>). The code tests the branches for identity and, when they differ, returns
  the locale comparison as it is, also when that is 0. With a consistent comparison that
  gives no weight to the control character U+0001, the branches \<^verbatim>\<open>main\<close> and \<^verbatim>\<open>main\<close>
  followed by U+0001 are different strings that compare as 0. On valid Versions the code
  then puts 3.0.0 on the second branch at most 2.0.0 on \<^verbatim>\<open>main\<close>, and that at most 1.0.0
  on the second branch, yet 3.0.0 above 1.0.0 on that same branch; and it compares 1.0.0
  with 2.0.0 as 0, where the order of the specification goes on to the major numbers and
  gives a negative result.\<close>

theorem comparePrecedence_not_transitive:
  "validVersion ctl1 \<and> validVersion plain2 \<and> validVersion ctl3 \<and>
   compare ignoringControls ctl3 plain2 \<le> 0 \<and>
   compare ignoringControls plain2 ctl1 \<le> 0 \<and>
   \<not> compare ignoringControls ctl3 ctl1 \<le> 0 \<and>
   compare ignoringControls ctl1 plain2 = 0 \<and>
   specPrecedence ignoringControls ctl1 plain2 = - 1"
  by (simp add: validVersion_def MAX_SAFE_INTEGER_def compare_def comparePrecedence_def
      specPrecedence_def branchOrEmpty_def hotfixOrZero_def
      ctl1_def plain2_def ctl3_def ignoringControls_def ignorable_def codeUnitCompare_def)

subsection \<open>Policy settings of an instance\<close>

text \<open>No call changes an instance that exists: the calls that construct append a new
  instance, and \<open>setDefaultComplianceSettings\<close> writes the static field only.\<close>

lemma alloc_keeps:
  assumes "r < length (instances st)"
  shows "instances (snd (alloc res st)) ! r = instances st ! r \<and>
         r < length (instances (snd (alloc res st)))"
  using assms by (cases res) (simp_all add: alloc_def nth_append)

lemma exec_keeps:
  assumes "r < length (instances st)"
  shows "instances (exec c st) ! r = instances st ! r \<and> r < length (instances (exec c st))"
proof (cases c)
  case (TryParse x)
  show ?thesis
  proof (cases "tryParse (static_complianceSettings st) x")
    case (Inl e)
    then show ?thesis using TryParse assms by simp
  next
    case (Inr o1)
    then show ?thesis using TryParse assms alloc_keeps[OF assms] by (cases o1) simp_all
  qed
next
  case (SetDefault s)
  then show ?thesis using assms by (simp add: setDefaultComplianceSettings_def)
qed (simp_all add: new_SemanticVersion_def alloc_keeps[OF assms])

lemma run_keeps:
  "r < length (instances st) \<Longrightarrow> instances (run calls st) ! r = instances st ! r"
proof (induction calls arbitrary: st)
  case Nil
  then show ?case by simp
next
  case (Cons c cs)
  from exec_keeps[OF Cons.prems, of c]
  have 1: "instances (exec c st) ! r = instances st ! r"
    and 2: "r < length (instances (exec c st))"
    by blast+
  show ?case using Cons.IH[OF 2] 1 by simp
qed

text \<open>Settings supplied with the initializer are the settings of the Version, whatever
  the static default is.\<close>

lemma explicit_settings:
  assumes "construct d x = Inr v"
    and "complianceSettingsSchema (getProp x ''complianceSettings'') = Some (Some cs)"
  shows "priv_complianceSettings v = Some cs"
proof -
  have "fromObject d x = Inr v"
    using assms fromString_Inl[of d] by (cases x) (auto split: if_splits)
  from fromObject_Inr[OF this] obtain st where
    st: "SemanticVersionSchema x = Inr st" and
    v: "priv_complianceSettings v =
          (case complianceSettings st of Some cs \<Rightarrow> Some cs | None \<Rightarrow> d)"
    by auto
  from st[unfolded schema_Inr] assms(2) have "complianceSettings st = Some cs" by simp
  then show ?thesis using v by simp
qed

text \<open>C9. Once \<^verbatim>\<open>new SemanticVersion(initializer)\<close> has returned an instance, its settings
  are the same after \<open>setDefaultComplianceSettings\<close> and after any sequence of calls on the
  class; and when the initializer supplies settings, they are the settings of the
  instance.\<close>

theorem settings_fixed_at_construction:
  "new_SemanticVersion initializer st = (Inr r, st1) \<longrightarrow>
     ComplianceSettings (setDefaultComplianceSettings settings st1) r =
       ComplianceSettings st1 r \<and>
     ComplianceSettings (run calls st1) r = ComplianceSettings st1 r \<and>
     (\<forall>cs. complianceSettingsSchema (getProp initializer ''complianceSettings'') =
             Some (Some cs)
        \<longrightarrow> ComplianceSettings st1 r = Some cs)"
proof (intro impI)
  assume n: "new_SemanticVersion initializer st = (Inr r, st1)"
  then obtain v where
    c: "construct (static_complianceSettings st) initializer = Inr v" and
    r: "r = length (instances st)" and
    st1: "st1 = st\<lparr>instances := instances st @ [v]\<rparr>"
    by (cases "construct (static_complianceSettings st) initializer")
       (auto simp: new_SemanticVersion_def alloc_def)
  have lt: "r < length (instances st1)" using r st1 by simp
  have at: "instances st1 ! r = v" using r st1 by simp
  have 1: "ComplianceSettings (setDefaultComplianceSettings settings st1) r =
      ComplianceSettings st1 r"
    by (simp add: ComplianceSettings_def setDefaultComplianceSettings_def)
  have 2: "ComplianceSettings (run calls st1) r = ComplianceSettings st1 r"
    by (simp add: ComplianceSettings_def run_keeps[OF lt])
  have 3: "\<forall>cs. complianceSettingsSchema (getProp initializer ''complianceSettings'') =
             Some (Some cs)
        \<longrightarrow> ComplianceSettings st1 r = Some cs"
    using explicit_settings[OF c] at by (simp add: ComplianceSettings_def)
  show "ComplianceSettings (setDefaultComplianceSettings settings st1) r =
       ComplianceSettings st1 r \<and>
     ComplianceSettings (run calls st1) r = ComplianceSettings st1 r \<and>
     (\<forall>cs. complianceSettingsSchema (getProp initializer ''complianceSettings'') =
             Some (Some cs)
        \<longrightarrow> ComplianceSettings st1 r = Some cs)"
    using 1 2 3 by blast
qed

lemma new_example:
  "new_SemanticVersion branchRequiredInit emptyState =
     (Inr 0, \<lparr>static_complianceSettings = None,
              instances = [\<lparr>priv_complianceSettings =
                 Some (\<lambda>k. case k of Branch \<Rightarrow> Required | Label \<Rightarrow> Optional
                        | Hotfix \<Rightarrow> Optional | Prerelease \<Rightarrow> Optional | Build \<Rightarrow> Optional),
               priv_branch = Some ''main'', priv_label = None,
               priv_major = 1, priv_minor = 0, priv_patch = 0, priv_hotfix = None,
               priv_prerelease = None, priv_build = None\<rparr>]\<rparr>)"
  by (simp add: new_SemanticVersion_def alloc_def branchRequiredInit_def emptyState_def
      schema_defs settingsObjectSchema_def MAX_SAFE_INTEGER_def)

theorem settings_fixed_witness:
  "new_SemanticVersion branchRequiredInit emptyState =
     (Inr 0, snd (new_SemanticVersion branchRequiredInit emptyState)) \<and>
   map_option (\<lambda>cs. map cs [Branch, Label, Hotfix, Prerelease, Build])
     (ComplianceSettings
        (run [SetDefault allForbidden, New JUndefined, IncrementMajor 0]
           (setDefaultComplianceSettings allForbidden
              (snd (new_SemanticVersion branchRequiredInit emptyState)))) 0) =
     Some [Required, Optional, Optional, Optional, Optional]"
proof -
  let ?st1 = "snd (new_SemanticVersion branchRequiredInit emptyState)"
  have n: "new_SemanticVersion branchRequiredInit emptyState = (Inr 0, ?st1)"
    by (simp add: new_example)
  have cs: "map_option (\<lambda>cs. map cs [Branch, Label, Hotfix, Prerelease, Build])
      (ComplianceSettings ?st1 0) = Some [Required, Optional, Optional, Optional, Optional]"
    by (simp add: new_example ComplianceSettings_def)
  from settings_fixed_at_construction[of branchRequiredInit emptyState 0 ?st1 allForbidden
      "[SetDefault allForbidden, SetDefault allForbidden, New JUndefined, IncrementMajor 0]"] n
  have "ComplianceSettings
      (run [SetDefault allForbidden, SetDefault allForbidden, New JUndefined, IncrementMajor 0]
         ?st1) 0 = ComplianceSettings ?st1 0"
    by blast
  then show ?thesis using n cs by simp
qed

end
